theory Spec2Isabelle
  imports Main "HOL-Library.Char_ord" "HOL-Library.List_Lexorder" "HOL-Library.Product_Lexorder"
begin

section \<open>JavaScript values\<close>

text \<open>
  The server handles plain JavaScript values: request bodies, database rows, the patch
  object of an update and the settings record are objects whose properties are read,
  spread and passed on. A value is one of the following. \<open>Num\<close> carries the integers
  (every number the server computes with comes from \<open>parseInt\<close> or from a row count),
  exactly, where JavaScript rounds beyond \<open>2^53\<close>;
  \<open>parseInt\<close>'s \<open>NaN\<close> is modelled where it arises, as \<open>None\<close>.
  \<open>IsoStr t\<close> is the string that \<open>Date.prototype.toISOString\<close> renders for the instant
  \<open>t\<close> (milliseconds since the epoch, UTC), which is also how the database returns a
  timestamp column; every other string is \<open>Str\<close>. \<open>DateObj\<close> is a \<open>Date\<close> object,
  \<open>DateObj None\<close> the invalid date. An object is the list of its properties in insertion
  order, each key once.
\<close>

datatype jsval =
    Undefined
  | Null
  | Bool bool
  | Num int
  | Str string
  | IsoStr int
  | DateObj "int option"
  | Arr "jsval list"
  | Obj "(string \<times> jsval) list"

type_synonym obj = "(string \<times> jsval) list"

text \<open>\<open>o[k]\<close>: a missing property reads as \<open>undefined\<close>.\<close>

definition obj_get :: "obj \<Rightarrow> string \<Rightarrow> jsval" where
  "obj_get ob k = (case map_of ob k of None \<Rightarrow> Undefined | Some v \<Rightarrow> v)"

text \<open>\<open>v.k\<close> on a value that is neither \<open>null\<close> nor \<open>undefined\<close> (on those the
  read throws): only an object has the properties the server asks for.\<close>

definition property :: "jsval \<Rightarrow> string \<Rightarrow> jsval" where
  "property v k = (case v of Obj ob \<Rightarrow> obj_get ob k | _ \<Rightarrow> Undefined)"

text \<open>\<open>o[k] = v\<close> (also \<open>Map.prototype.set\<close>): an existing key keeps its place, a new
  key goes to the end.\<close>

fun obj_set :: "('k \<times> 'v) list \<Rightarrow> 'k \<Rightarrow> 'v \<Rightarrow> ('k \<times> 'v) list" where
  "obj_set [] k v = [(k, v)]"
| "obj_set ((k', v') # ob) k v =
     (if k' = k then (k, v) # ob else (k', v') # obj_set ob k v)"

text \<open>\<open>{ ...a, ...b }\<close>: the properties of \<open>a\<close>, then each property of \<open>b\<close> assigned
  in turn.\<close>

definition spread :: "obj \<Rightarrow> obj \<Rightarrow> obj" where
  "spread a b = fold (\<lambda>(k, v) ob. obj_set ob k v) b a"

text \<open>Truthiness, as \<open>if (x)\<close>, \<open>!x\<close>, \<open>x || d\<close> and \<open>x ? a : b\<close> test it.\<close>

fun truthy :: "jsval \<Rightarrow> bool" where
  "truthy Undefined = False"
| "truthy Null = False"
| "truthy (Bool b) = b"
| "truthy (Num n) = (n \<noteq> 0)"
| "truthy (Str s) = (s \<noteq> [])"
| "truthy (IsoStr t) = True"
| "truthy (DateObj d) = True"
| "truthy (Arr xs) = True"
| "truthy (Obj ob) = True"

text \<open>The exceptions the server code throws or lets through.\<close>

datatype js_error =
    Error string
  | ZodError "(string \<times> string) list"
  | RangeError string
  | TypeError string

section \<open>The remote database client\<close>

text \<open>
  A request to the hosted database is built by chaining calls on the client
  (\<open>from(t).select(..).eq(..).range(..)\<close>) and sent when it is awaited. The built request
  is a record; each builder call updates one field.
\<close>

datatype verb = Select string | Update obj

datatype cond = Ilike string string | Eq string jsval | Gte string jsval

record query =
  q_table :: string
  q_verb :: verb
  q_count :: bool
  q_head :: bool
  q_conds :: "cond list"
  q_order :: "(string \<times> bool) option"
  q_range :: "(int \<times> int) option"
  q_returning :: bool
  q_single :: bool

definition from_table :: "string \<Rightarrow> verb \<Rightarrow> query" where
  "from_table t v =
     \<lparr>q_table = t, q_verb = v, q_count = False, q_head = False, q_conds = [],
      q_order = None, q_range = None, q_returning = False, q_single = False\<rparr>"

definition select :: "string \<Rightarrow> string \<Rightarrow> query" where
  "select t cols = from_table t (Select cols)"

definition select_count :: "string \<Rightarrow> string \<Rightarrow> query" where
  "select_count t cols = (select t cols)\<lparr>q_count := True\<rparr>"

definition select_head :: "string \<Rightarrow> string \<Rightarrow> query" where
  "select_head t cols = (select t cols)\<lparr>q_count := True, q_head := True\<rparr>"

definition update :: "string \<Rightarrow> obj \<Rightarrow> query" where
  "update t patch = from_table t (Update patch)"

definition ilike :: "string \<Rightarrow> string \<Rightarrow> query \<Rightarrow> query" where
  "ilike col pat q = q\<lparr>q_conds := q_conds q @ [Ilike col pat]\<rparr>"

definition eq_q :: "string \<Rightarrow> jsval \<Rightarrow> query \<Rightarrow> query" where
  "eq_q col v q = q\<lparr>q_conds := q_conds q @ [Eq col v]\<rparr>"

definition gte :: "string \<Rightarrow> jsval \<Rightarrow> query \<Rightarrow> query" where
  "gte col v q = q\<lparr>q_conds := q_conds q @ [Gte col v]\<rparr>"

definition order_q :: "string \<Rightarrow> bool \<Rightarrow> query \<Rightarrow> query" where
  "order_q col ascending q = q\<lparr>q_order := Some (col, ascending)\<rparr>"

definition range_q :: "int \<Rightarrow> int \<Rightarrow> query \<Rightarrow> query" where
  "range_q lo hi q = q\<lparr>q_range := Some (lo, hi)\<rparr>"

definition returning :: "query \<Rightarrow> query" where
  "returning q = q\<lparr>q_returning := True\<rparr>"

definition single :: "query \<Rightarrow> query" where
  "single q = q\<lparr>q_single := True\<rparr>"

text \<open>What the client resolves to: \<open>{ data, error, count }\<close>.\<close>

record pg_error =
  e_code :: string
  e_message :: string

record response =
  r_data :: jsval
  r_error :: "pg_error option"
  r_count :: "int option"

section \<open>The storage adapter\<close>

text \<open>
  \<open>SupabaseStorage\<close> holds the client in a field and the settings record in another.
  The client is the remote service as this process sees it: a function \<open>supabase\<close>
  that answers a request in a state of the remote database and gives the next state,
  the state \<open>remote\<close> itself, and the requests \<open>issued\<close> so far. Nothing is assumed
  about \<open>supabase\<close> unless a theorem says so.
\<close>

record 'db SupabaseStorage =
  supabase :: "'db \<Rightarrow> query \<Rightarrow> response \<times> 'db"
  remote :: 'db
  issued :: "query list"
  settings :: obj

text \<open>\<open>await query\<close>: the request is sent and answered.\<close>

definition await :: "'db SupabaseStorage \<Rightarrow> query \<Rightarrow> response \<times> 'db SupabaseStorage" where
  "await S q =
     (let (resp, db') = supabase S (remote S) q
      in (resp, S\<lparr>remote := db', issued := issued S @ [q]\<rparr>))"

text \<open>What the remote answers to a sequence of requests, sent one after the other.\<close>

fun answers :: "('db \<Rightarrow> query \<Rightarrow> response \<times> 'db) \<Rightarrow> 'db \<Rightarrow> query list \<Rightarrow> response list" where
  "answers client db [] = []"
| "answers client db (q # qs) = fst (client db q) # answers client (snd (client db q)) qs"

subsection \<open>Dates\<close>

text \<open>
  An instant is a number of milliseconds since the epoch; the bounds of the range of
  \<open>Date\<close> are not modelled. A timestamp of the database denotes the same instant in
  the database and in the process, and the few clock reads of one request fall on the
  same instant \<open>now\<close>.

  The time zone of the process is a parameter. As in the language definition, it is given
  by the offset of local time from UTC, in milliseconds, once for an instant
  (\<open>LocalTZA(t, true)\<close>) and once for a local time value (\<open>LocalTZA(t, false)\<close>, which
  decides how a local time that a change of offset repeats or skips is read).
  \<open>getDate\<close> and \<open>setDate\<close> work on the local time value:
  \<open>d.setDate(d.getDate() - n)\<close> takes the local time of \<open>d\<close> back by \<open>n\<close> calendar
  days, keeping the time within the day, and converts the result to an instant. Across a
  change of offset the instant so obtained is not \<open>n\<close> times 24 hours before \<open>d\<close>.

  The date part of an ISO string, \<open>toISOString().split('T')[0]\<close>, is the UTC calendar
  day; it is represented by the number of that day, counted from the epoch. For the years
  0000 to 9999 the rendering \<open>YYYY-MM-DD\<close> is one string per day and orders the days as
  their numbers do, so that \<open>localeCompare\<close> on two date strings is the comparison of two
  day numbers.
\<close>

type_synonym instant = int
type_synonym isodate = int

definition MS_PER_DAY :: int where
  "MS_PER_DAY = 24 * 60 * 60 * 1000"

record timezone =
  LocalTZA_utc :: "instant \<Rightarrow> int"
  LocalTZA_local :: "int \<Rightarrow> int"

definition LocalTime :: "timezone \<Rightarrow> instant \<Rightarrow> int" where
  "LocalTime tz t = t + LocalTZA_utc tz t"

definition UTC :: "timezone \<Rightarrow> int \<Rightarrow> instant" where
  "UTC tz t = t - LocalTZA_local tz t"

definition setDate_back :: "timezone \<Rightarrow> instant \<Rightarrow> int \<Rightarrow> instant" where
  "setDate_back tz d n = UTC tz (LocalTime tz d - n * MS_PER_DAY)"

definition iso_date :: "instant \<Rightarrow> isodate" where
  "iso_date d = d div MS_PER_DAY"

text \<open>\<open>new Date(v)\<close>; a string that is not in the canonical form is parsed by the
  runtime's \<open>Date.parse\<close>, which is a parameter. An array or an object is converted to
  a string first, which is taken not to parse.\<close>

fun new_Date :: "(string \<Rightarrow> instant option) \<Rightarrow> jsval \<Rightarrow> instant option" where
  "new_Date Date_parse Undefined = None"
| "new_Date Date_parse Null = Some 0"
| "new_Date Date_parse (Bool b) = Some (if b then 1 else 0)"
| "new_Date Date_parse (Num n) = Some n"
| "new_Date Date_parse (Str s) = Date_parse s"
| "new_Date Date_parse (IsoStr t) = Some t"
| "new_Date Date_parse (DateObj d) = d"
| "new_Date Date_parse (Arr xs) = None"
| "new_Date Date_parse (Obj ob) = None"

text \<open>\<open>toISOString\<close> throws on the invalid date.\<close>

definition toISOString :: "instant option \<Rightarrow> js_error + jsval" where
  "toISOString d =
     (case d of None \<Rightarrow> Inl (RangeError ''Invalid time value'') | Some t \<Rightarrow> Inr (IsoStr t))"

subsection \<open>getUsers\<close>

record FilterUserParams =
  f_name :: "string option"
  f_phone :: "string option"
  f_is_vip :: string
  f_is_banned :: string
  f_sortBy :: string
  f_sortOrder :: string
  f_page :: int
  f_limit :: int

record UsersResult =
  data :: jsval
  count :: int

text \<open>\<open>x || d\<close> on a number and on a count that may be \<open>null\<close>.\<close>

definition or_default :: "int \<Rightarrow> int \<Rightarrow> int" where
  "or_default x d = (if x \<noteq> 0 then x else d)"

definition count_or_0 :: "int option \<Rightarrow> int" where
  "count_or_0 c = (case c of None \<Rightarrow> 0 | Some n \<Rightarrow> or_default n 0)"

text \<open>The request \<open>getUsers\<close> builds, in the order of the source.\<close>

definition getUsers_query :: "FilterUserParams \<Rightarrow> query" where
  "getUsers_query filters =
     (let query = select_count ''users2'' ''*'';
          query = (case f_name filters of
                     Some n \<Rightarrow> if n \<noteq> [] then ilike ''name'' (''%'' @ n @ ''%'') query else query
                   | None \<Rightarrow> query);
          query = (case f_phone filters of
                     Some p \<Rightarrow> if p \<noteq> [] then ilike ''phone'' (''%'' @ p @ ''%'') query else query
                   | None \<Rightarrow> query);
          query = (if f_is_vip filters = ''vip'' then eq_q ''is_vip'' (Bool True) query
                   else if f_is_vip filters = ''non-vip'' then eq_q ''is_vip'' (Bool False) query
                   else query);
          query = (if f_is_banned filters = ''banned'' then eq_q ''is_banned'' (Bool True) query
                   else if f_is_banned filters = ''active'' then eq_q ''is_banned'' (Bool False) query
                   else query);
          page = or_default (f_page filters) 1;
          limit = or_default (f_limit filters) 10;
          start = (page - 1) * limit;
          query = order_q (if f_sortBy filters \<noteq> [] then f_sortBy filters else ''created_at'')
                    (f_sortOrder filters = ''asc'') query
      in range_q start (start + limit - 1) query)"

definition getUsers ::
  "'db SupabaseStorage \<Rightarrow> FilterUserParams \<Rightarrow> (js_error + UsersResult) \<times> 'db SupabaseStorage" where
  "getUsers S filters =
     (let (resp, S') = await S (getUsers_query filters)
      in case r_error resp of
           Some e \<Rightarrow> (Inl (Error (''Failed to get users: '' @ e_message e)), S')
         | None \<Rightarrow> (Inr \<lparr>data = r_data resp, count = count_or_0 (r_count resp)\<rparr>, S'))"

subsection \<open>getUser\<close>

definition getUser ::
  "'db SupabaseStorage \<Rightarrow> string \<Rightarrow> (js_error + jsval) \<times> 'db SupabaseStorage" where
  "getUser S ident =
     (let (resp, S') = await S (single (eq_q ''id'' (Str ident) (select ''users2'' ''*'')))
      in case r_error resp of
           Some e \<Rightarrow>
             if e_code e = ''PGRST116'' then (Inr Null, S')
             else (Inl (Error (''Failed to get user: '' @ e_message e)), S')
         | None \<Rightarrow> (Inr (r_data resp), S'))"

subsection \<open>updateUser, banUser, unbanUser, setVipStatus\<close>

text \<open>The first half of \<open>updateUser\<close>: the copy \<open>{ ...user }\<close> with \<open>expired_at\<close> made
  ready for the database.\<close>

definition expired_at_for_supabase :: "obj \<Rightarrow> js_error + obj" where
  "expired_at_for_supabase user =
     (let userData = spread [] user
      in case obj_get userData ''expired_at'' of
           DateObj d \<Rightarrow>
             (case toISOString d of
                Inl err \<Rightarrow> Inl err
              | Inr isoString \<Rightarrow> Inr (obj_set userData ''expired_at'' isoString))
         | Str s \<Rightarrow> if s = [] then Inr (obj_set userData ''expired_at'' Null) else Inr userData
         | _ \<Rightarrow> Inr userData)"

definition updateUser ::
  "'db SupabaseStorage \<Rightarrow> string \<Rightarrow> obj \<Rightarrow> (js_error + jsval) \<times> 'db SupabaseStorage" where
  "updateUser S ident user =
     (case expired_at_for_supabase user of
        Inl err \<Rightarrow> (Inl err, S)
      | Inr userData \<Rightarrow>
          (let (resp, S') =
                 await S (single (returning (eq_q ''id'' (Str ident) (update ''users2'' userData))))
           in case r_error resp of
                Some e \<Rightarrow> (Inl (Error (''Failed to update user: '' @ e_message e)), S')
              | None \<Rightarrow> (Inr (r_data resp), S')))"

definition banUser ::
  "'db SupabaseStorage \<Rightarrow> string \<Rightarrow> (js_error + jsval) \<times> 'db SupabaseStorage" where
  "banUser S ident = updateUser S ident [(''is_banned'', Bool True)]"

definition unbanUser ::
  "'db SupabaseStorage \<Rightarrow> string \<Rightarrow> (js_error + jsval) \<times> 'db SupabaseStorage" where
  "unbanUser S ident = updateUser S ident [(''is_banned'', Bool False)]"

definition setVipStatus ::
  "'db SupabaseStorage \<Rightarrow> string \<Rightarrow> bool \<Rightarrow> (js_error + jsval) \<times> 'db SupabaseStorage" where
  "setVipStatus S ident isVip = updateUser S ident [(''is_vip'', Bool isVip)]"

subsection \<open>getUserStats\<close>

record UserStats =
  totalUsers :: int
  activeUsers :: int
  bannedUsers :: int
  vipUsers :: int
  newUsers :: int

text \<open>The five counting requests, in the order they are sent.\<close>

definition stats_queries :: "timezone \<Rightarrow> instant \<Rightarrow> query list" where
  "stats_queries tz now =
     [select_head ''users2'' ''*'',
      eq_q ''is_banned'' (Bool False) (select_head ''users2'' ''*''),
      eq_q ''is_banned'' (Bool True) (select_head ''users2'' ''*''),
      eq_q ''is_vip'' (Bool True) (select_head ''users2'' ''*''),
      gte ''created_at'' (IsoStr (setDate_back tz now 7)) (select_head ''users2'' ''*'')]"

definition getUserStats ::
  "timezone \<Rightarrow> instant \<Rightarrow> 'db SupabaseStorage
     \<Rightarrow> (js_error + UserStats) \<times> 'db SupabaseStorage" where
  "getUserStats tz now S =
     (let (r1, S1) = await S (stats_queries tz now ! 0);
          (r2, S2) = await S1 (stats_queries tz now ! 1);
          (r3, S3) = await S2 (stats_queries tz now ! 2);
          (r4, S4) = await S3 (stats_queries tz now ! 3);
          (r5, S5) = await S4 (stats_queries tz now ! 4)
      in (Inr \<lparr>totalUsers = count_or_0 (r_count r1),
                activeUsers = count_or_0 (r_count r2),
                bannedUsers = count_or_0 (r_count r3),
                vipUsers = count_or_0 (r_count r4),
                newUsers = count_or_0 (r_count r5)\<rparr>, S5))"

text \<open>
  The later version of the adapter takes the table as a parameter, \<open>users2\<close> by
  default, computes the start of the seven days from \<open>Date.now()\<close> and sends the five
  requests through \<open>Promise.all\<close>: they are started in the order of the array, and each
  count is read from the response at its position.
\<close>

definition stats_queries_table :: "string \<Rightarrow> instant \<Rightarrow> query list" where
  "stats_queries_table t now =
     [select_head t ''*'',
      eq_q ''is_banned'' (Bool False) (select_head t ''*''),
      eq_q ''is_banned'' (Bool True) (select_head t ''*''),
      eq_q ''is_vip'' (Bool True) (select_head t ''*''),
      gte ''created_at'' (IsoStr (now - 7 * 24 * 60 * 60 * 1000)) (select_head t ''*'')]"

definition getUserStats_table ::
  "instant \<Rightarrow> 'db SupabaseStorage \<Rightarrow> string \<Rightarrow> (js_error + UserStats) \<times> 'db SupabaseStorage" where
  "getUserStats_table now S t =
     (let (r1, S1) = await S (stats_queries_table t now ! 0);
          (r2, S2) = await S1 (stats_queries_table t now ! 1);
          (r3, S3) = await S2 (stats_queries_table t now ! 2);
          (r4, S4) = await S3 (stats_queries_table t now ! 3);
          (r5, S5) = await S4 (stats_queries_table t now ! 4)
      in (Inr \<lparr>totalUsers = count_or_0 (r_count r1),
                activeUsers = count_or_0 (r_count r2),
                bannedUsers = count_or_0 (r_count r3),
                vipUsers = count_or_0 (r_count r4),
                newUsers = count_or_0 (r_count r5)\<rparr>, S5))"

subsection \<open>getUserActivityTrend\<close>

record UserActivity =
  date :: isodate
  userCount :: int

text \<open>The loop that initialises the map: one key per \<open>i\<close> below \<open>days\<close>.\<close>

definition init_dates :: "timezone \<Rightarrow> instant \<Rightarrow> int \<Rightarrow> (isodate \<times> int) list" where
  "init_dates tz now days =
     fold (\<lambda>i activityByDate.
             obj_set activityByDate (iso_date (setDate_back tz now (int i))) 0)
       [0 ..< nat days] []"

text \<open>The body of \<open>data.forEach\<close>, and the loop.\<close>

definition count_user ::
  "(string \<Rightarrow> instant option) \<Rightarrow> jsval \<Rightarrow> (isodate \<times> int) list
     \<Rightarrow> js_error + (isodate \<times> int) list" where
  "count_user Date_parse user activityByDate =
     (if user = Null \<or> user = Undefined
      then Inl (TypeError ''Cannot read properties of null or undefined'')
      else case new_Date Date_parse (property user ''created_at'') of
             None \<Rightarrow> Inl (RangeError ''Invalid time value'')
           | Some t \<Rightarrow>
               (let dateStr = iso_date t;
                    cnt = (case map_of activityByDate dateStr of
                             None \<Rightarrow> 0 | Some c \<Rightarrow> or_default c 0)
                in Inr (obj_set activityByDate dateStr (cnt + 1))))"

fun count_users ::
  "(string \<Rightarrow> instant option) \<Rightarrow> jsval list \<Rightarrow> (isodate \<times> int) list
     \<Rightarrow> js_error + (isodate \<times> int) list" where
  "count_users Date_parse [] activityByDate = Inr activityByDate"
| "count_users Date_parse (user # users) activityByDate =
     (case count_user Date_parse user activityByDate of
        Inl err \<Rightarrow> Inl err
      | Inr m \<Rightarrow> count_users Date_parse users m)"

definition getUserActivityTrend ::
  "(string \<Rightarrow> instant option) \<Rightarrow> timezone \<Rightarrow> instant \<Rightarrow> 'db SupabaseStorage \<Rightarrow> int option
     \<Rightarrow> (js_error + UserActivity list) \<times> 'db SupabaseStorage" where
  "getUserActivityTrend Date_parse tz now S days =
     (case days of
        None \<Rightarrow> (Inl (RangeError ''Invalid time value''), S)
      | Some n \<Rightarrow>
          (let daysAgo = setDate_back tz now n;
               (resp, S') = await S (gte ''created_at'' (IsoStr daysAgo)
                                      (select ''users2'' ''created_at''))
           in if \<not> truthy (r_data resp) then (Inr [], S')
              else case r_data resp of
                     Arr rows \<Rightarrow>
                       (case count_users Date_parse rows (init_dates tz now n) of
                          Inl err \<Rightarrow> (Inl err, S')
                        | Inr activityByDate \<Rightarrow>
                            (Inr (sort_key date
                                   (map (\<lambda>(d, c). \<lparr>date = d, userCount = c\<rparr>) activityByDate)),
                             S'))
                   | _ \<Rightarrow> (Inl (TypeError ''data.forEach is not a function''), S')))"

subsection \<open>Settings\<close>

definition DEFAULT_SETTINGS :: obj where
  "DEFAULT_SETTINGS =
     [(''allowRegistration'', Bool True),
      (''maintenanceMode'', Bool False),
      (''vipFeatures'',
         Arr [Str ''Priority Support'', Str ''Extended Expiration'', Str ''Premium Content'']),
      (''appVersion'', Str ''1.0.0''),
      (''notificationMessage'', Str [])]"

definition getSettings :: "'db SupabaseStorage \<Rightarrow> obj \<times> 'db SupabaseStorage" where
  "getSettings S = (settings S, S)"

definition updateSettings :: "'db SupabaseStorage \<Rightarrow> obj \<Rightarrow> obj \<times> 'db SupabaseStorage" where
  "updateSettings S newSettings =
     (let S' = S\<lparr>settings := spread (spread [] (settings S)) newSettings\<rparr>
      in (settings S', S'))"

text \<open>A new storage object: \<open>new SupabaseStorage()\<close> over a client.\<close>

definition new_storage :: "('db \<Rightarrow> query \<Rightarrow> response \<times> 'db) \<Rightarrow> 'db \<Rightarrow> 'db SupabaseStorage" where
  "new_storage client db =
     \<lparr>supabase = client, remote = db, issued = [], settings = spread [] DEFAULT_SETTINGS\<rparr>"

section \<open>Request validation\<close>

text \<open>
  \<open>parseInt(s)\<close> with no radix: leading white space is skipped, a sign is read, a
  \<open>0x\<close> prefix selects base 16, and the longest prefix of digits is the number; with no
  digit the result is \<open>NaN\<close>, here \<open>None\<close>. The integers are exact.
\<close>

definition is_white_space :: "char \<Rightarrow> bool" where
  "is_white_space c = (c \<in> set [CHR '' '', CHR 0x09, CHR 0x0A, CHR 0x0B, CHR 0x0C, CHR 0x0D])"

definition digit_value :: "char \<Rightarrow> nat" where
  "digit_value c =
     (let n = of_char c :: nat
      in if 48 \<le> n \<and> n \<le> 57 then n - 48
         else if 97 \<le> n \<and> n \<le> 122 then n - 87
         else if 65 \<le> n \<and> n \<le> 90 then n - 55
         else 36)"

definition parseInt :: "string \<Rightarrow> int option" where
  "parseInt s =
     (let s1 = dropWhile is_white_space s;
          (sign, s2) = (case s1 of
                          c # r \<Rightarrow> if c = CHR ''-'' then (- 1, r)
                                   else if c = CHR ''+'' then (1, r) else (1, s1)
                        | [] \<Rightarrow> (1 :: int, s1));
          (radix, s3) = (if take 2 s2 = ''0x'' \<or> take 2 s2 = ''0X'' then (16 :: nat, drop 2 s2)
                         else (10, s2));
          ds = takeWhile (\<lambda>c. digit_value c < radix) s3
      in if ds = [] then None
         else Some (sign * int (foldl (\<lambda>a c. a * radix + digit_value c) 0 ds)))"

text \<open>
  The schemas are zod objects. Parsing checks every field of the shape in turn, collects
  an issue (path and message) for each field that fails, and throws a \<open>ZodError\<close> with
  all of them, or returns the parsed object. \<open>fromZodError\<close> renders the issues.
\<close>

type_synonym issue = "string \<times> string"

fun join :: "string \<Rightarrow> string list \<Rightarrow> string" where
  "join sep [] = []"
| "join sep [x] = x"
| "join sep (x # y # zs) = x @ sep @ join sep (y # zs)"

definition fromZodError :: "issue list \<Rightarrow> string" where
  "fromZodError issues =
     ''Validation error: '' @
       join ''; '' (map (\<lambda>(path, msg). if path = [] then msg
                                   else msg @ '' at '' @ [CHR 0x22] @ path @ [CHR 0x22]) issues)"

fun parsed_type :: "jsval \<Rightarrow> string" where
  "parsed_type Undefined = ''undefined''"
| "parsed_type Null = ''null''"
| "parsed_type (Bool b) = ''boolean''"
| "parsed_type (Num n) = ''number''"
| "parsed_type (Str s) = ''string''"
| "parsed_type (IsoStr t) = ''string''"
| "parsed_type (DateObj d) = ''date''"
| "parsed_type (Arr xs) = ''array''"
| "parsed_type (Obj ob) = ''object''"

definition expected :: "string \<Rightarrow> string \<Rightarrow> jsval \<Rightarrow> issue list" where
  "expected ty path v =
     [(path, if v = Undefined then ''Required''
             else ''Expected '' @ ty @ '', received '' @ parsed_type v)]"

text \<open>\<open>z.string()\<close>, \<open>z.string().optional()\<close>, \<open>z.boolean().optional()\<close>,
  \<open>z.string().nullable().optional()\<close>: the issues of a field.\<close>

definition z_string :: "string \<Rightarrow> jsval \<Rightarrow> issue list" where
  "z_string path v = (if parsed_type v = ''string'' then [] else expected ''string'' path v)"

definition z_string_optional :: "string \<Rightarrow> jsval \<Rightarrow> issue list" where
  "z_string_optional path v = (if v = Undefined then [] else z_string path v)"

definition z_boolean_optional :: "string \<Rightarrow> jsval \<Rightarrow> issue list" where
  "z_boolean_optional path v =
     (if v = Undefined \<or> parsed_type v = ''boolean'' then [] else expected ''boolean'' path v)"

definition z_string_nullable_optional :: "string \<Rightarrow> jsval \<Rightarrow> issue list" where
  "z_string_nullable_optional path v =
     (if v = Undefined \<or> v = Null then [] else z_string path v)"

subsection \<open>updateUserSchema\<close>

text \<open>The transform of \<open>expired_at\<close>.\<close>

definition expired_at_transform :: "(string \<Rightarrow> instant option) \<Rightarrow> jsval \<Rightarrow> jsval" where
  "expired_at_transform Date_parse val =
     (if val = Str [] \<or> val = Null \<or> val = Undefined then Null
      else DateObj (new_Date Date_parse val))"

text \<open>The issues of the six fields of the shape.\<close>

definition updateUserSchema_issues :: "obj \<Rightarrow> issue list" where
  "updateUserSchema_issues ob =
     z_string ''name'' (obj_get ob ''name'') @
     z_string_optional ''phone'' (obj_get ob ''phone'') @
     z_string_optional ''imei'' (obj_get ob ''imei'') @
     z_boolean_optional ''is_vip'' (obj_get ob ''is_vip'') @
     z_boolean_optional ''is_banned'' (obj_get ob ''is_banned'') @
     z_string_nullable_optional ''expired_at'' (obj_get ob ''expired_at'')"

text \<open>The parsed object has the keys of the shape, in its order; unknown keys are
  stripped, and a key whose parsed value is \<open>undefined\<close> is left out.\<close>

definition updateUserSchema_output :: "(string \<Rightarrow> instant option) \<Rightarrow> obj \<Rightarrow> obj" where
  "updateUserSchema_output Date_parse ob =
     filter (\<lambda>(k, v). v \<noteq> Undefined)
       [(''name'', obj_get ob ''name''),
        (''phone'', obj_get ob ''phone''),
        (''imei'', obj_get ob ''imei''),
        (''is_vip'', obj_get ob ''is_vip''),
        (''is_banned'', obj_get ob ''is_banned''),
        (''expired_at'', expired_at_transform Date_parse (obj_get ob ''expired_at''))]"

definition updateUserSchema_parse ::
  "(string \<Rightarrow> instant option) \<Rightarrow> jsval \<Rightarrow> js_error + obj" where
  "updateUserSchema_parse Date_parse input =
     (case input of
        Obj ob \<Rightarrow>
          if updateUserSchema_issues ob \<noteq> [] then Inl (ZodError (updateUserSchema_issues ob))
          else Inr (updateUserSchema_output Date_parse ob)
      | v \<Rightarrow> Inl (ZodError (expected ''object'' [] v)))"

subsection \<open>filterUserSchema\<close>

definition z_enum_default ::
  "string list \<Rightarrow> string \<Rightarrow> string \<Rightarrow> string option \<Rightarrow> issue list \<times> string" where
  "z_enum_default options dflt path v =
     (case v of
        None \<Rightarrow> ([], dflt)
      | Some s \<Rightarrow>
          if s \<in> set options then ([], s)
          else ([(path, ''Invalid enum value. Expected '' @
                         join '' | '' (map (\<lambda>x. [CHR 0x27] @ x @ [CHR 0x27]) options) @
                         '', received '' @ [CHR 0x27] @ s @ [CHR 0x27])], dflt))"

text \<open>A number field receives \<open>undefined\<close> (\<open>None\<close>), \<open>NaN\<close> (\<open>Some None\<close>) or a number.\<close>

definition z_number_default :: "int \<Rightarrow> string \<Rightarrow> int option option \<Rightarrow> issue list \<times> int" where
  "z_number_default dflt path v =
     (case v of
        None \<Rightarrow> ([], dflt)
      | Some None \<Rightarrow> ([(path, ''Expected number, received nan'')], dflt)
      | Some (Some n) \<Rightarrow> ([], n))"

record FilterUserInput =
  in_name :: "string option"
  in_phone :: "string option"
  in_is_vip :: "string option"
  in_is_banned :: "string option"
  in_sortBy :: "string option"
  in_sortOrder :: "string option"
  in_page :: "int option option"
  in_limit :: "int option option"

definition filterUserSchema_parse :: "FilterUserInput \<Rightarrow> js_error + FilterUserParams" where
  "filterUserSchema_parse input =
     (let (i1, is_vip) = z_enum_default [''all'', ''vip'', ''non-vip''] ''all'' ''is_vip''
                           (in_is_vip input);
          (i2, is_banned) = z_enum_default [''all'', ''banned'', ''active''] ''all'' ''is_banned''
                              (in_is_banned input);
          (i3, sortBy) = z_enum_default [''name'', ''created_at'', ''last_login'', ''expired_at'']
                           ''created_at'' ''sortBy'' (in_sortBy input);
          (i4, sortOrder) = z_enum_default [''asc'', ''desc''] ''desc'' ''sortOrder''
                              (in_sortOrder input);
          (i5, page) = z_number_default 1 ''page'' (in_page input);
          (i6, limit) = z_number_default 10 ''limit'' (in_limit input);
          issues = i1 @ i2 @ i3 @ i4 @ i5 @ i6
      in if issues \<noteq> [] then Inl (ZodError issues)
         else Inr \<lparr>f_name = in_name input, f_phone = in_phone input, f_is_vip = is_vip,
                   f_is_banned = is_banned, f_sortBy = sortBy, f_sortOrder = sortOrder,
                   f_page = page, f_limit = limit\<rparr>)"

section \<open>HTTP handlers\<close>

text \<open>
  A request carries the \<open>:id\<close> of the route, the query string (each parameter a string)
  and the parsed JSON body. A handler sends a status and the value given to \<open>res.json\<close>.
\<close>

record request =
  params_id :: string
  query_params :: "(string \<times> string) list"
  body :: jsval

datatype payload =
    Message string
  | Json jsval
  | Users UsersResult
  | Stats UserStats
  | Activity "UserActivity list"

record reply =
  status :: nat
  sent :: payload

definition json :: "payload \<Rightarrow> reply" where
  "json p = \<lparr>status = 200, sent = p\<rparr>"

definition status_json :: "nat \<Rightarrow> payload \<Rightarrow> reply" where
  "status_json st p = \<lparr>status = st, sent = p\<rparr>"

text \<open>The \<open>catch\<close> block of the two handlers that validate: a \<open>ZodError\<close> is a 400 with
  its rendering, anything else a 500 with the handler's message.\<close>

definition catch_zod :: "string \<Rightarrow> js_error \<Rightarrow> reply" where
  "catch_zod msg err =
     (case err of
        ZodError issues \<Rightarrow> status_json 400 (Message (fromZodError issues))
      | _ \<Rightarrow> status_json 500 (Message msg))"

text \<open>\<open>req.query.page ? parseInt(req.query.page) : undefined\<close>.\<close>

definition query_number :: "(string \<times> string) list \<Rightarrow> string \<Rightarrow> int option option" where
  "query_number qs k =
     (case map_of qs k of
        Some s \<Rightarrow> if s \<noteq> [] then Some (parseInt s) else None
      | None \<Rightarrow> None)"

definition get_users_handler ::
  "'db SupabaseStorage \<Rightarrow> request \<Rightarrow> reply \<times> 'db SupabaseStorage" where
  "get_users_handler S req =
     (let qs = query_params req
      in case filterUserSchema_parse
                \<lparr>in_name = map_of qs ''name'', in_phone = map_of qs ''phone'',
                 in_is_vip = map_of qs ''is_vip'', in_is_banned = map_of qs ''is_banned'',
                 in_sortBy = map_of qs ''sortBy'', in_sortOrder = map_of qs ''sortOrder'',
                 in_page = query_number qs ''page'', in_limit = query_number qs ''limit''\<rparr> of
           Inl err \<Rightarrow> (catch_zod ''Failed to fetch users'' err, S)
         | Inr parsedQuery \<Rightarrow>
             (case getUsers S parsedQuery of
                (Inr result, S') \<Rightarrow> (json (Users result), S')
              | (Inl err, S') \<Rightarrow> (catch_zod ''Failed to fetch users'' err, S')))"

definition get_user_handler ::
  "'db SupabaseStorage \<Rightarrow> request \<Rightarrow> reply \<times> 'db SupabaseStorage" where
  "get_user_handler S req =
     (case getUser S (params_id req) of
        (Inr user, S') \<Rightarrow>
          if \<not> truthy user then (status_json 404 (Message ''User not found''), S')
          else (json (Json user), S')
      | (Inl err, S') \<Rightarrow> (status_json 500 (Message ''Failed to fetch user''), S'))"

definition put_user_handler ::
  "(string \<Rightarrow> instant option) \<Rightarrow> 'db SupabaseStorage \<Rightarrow> request
     \<Rightarrow> reply \<times> 'db SupabaseStorage" where
  "put_user_handler Date_parse S req =
     (case updateUserSchema_parse Date_parse (body req) of
        Inl err \<Rightarrow> (catch_zod ''Failed to update user'' err, S)
      | Inr userData \<Rightarrow>
          (case updateUser S (params_id req) userData of
             (Inr updatedUser, S') \<Rightarrow> (json (Json updatedUser), S')
           | (Inl err, S') \<Rightarrow> (catch_zod ''Failed to update user'' err, S')))"

definition ban_handler :: "'db SupabaseStorage \<Rightarrow> request \<Rightarrow> reply \<times> 'db SupabaseStorage" where
  "ban_handler S req =
     (case banUser S (params_id req) of
        (Inr updatedUser, S') \<Rightarrow> (json (Json updatedUser), S')
      | (Inl err, S') \<Rightarrow> (status_json 500 (Message ''Failed to ban user''), S'))"

definition unban_handler :: "'db SupabaseStorage \<Rightarrow> request \<Rightarrow> reply \<times> 'db SupabaseStorage" where
  "unban_handler S req =
     (case unbanUser S (params_id req) of
        (Inr updatedUser, S') \<Rightarrow> (json (Json updatedUser), S')
      | (Inl err, S') \<Rightarrow> (status_json 500 (Message ''Failed to unban user''), S'))"

text \<open>\<open>const { isVip } = req.body\<close> throws on \<open>null\<close> and \<open>undefined\<close>, inside the
  \<open>try\<close>.\<close>

definition vip_handler :: "'db SupabaseStorage \<Rightarrow> request \<Rightarrow> reply \<times> 'db SupabaseStorage" where
  "vip_handler S req =
     (if body req = Null \<or> body req = Undefined
      then (status_json 500 (Message ''Failed to update VIP status''), S)
      else case property (body req) ''isVip'' of
             Bool isVip \<Rightarrow>
               (case setVipStatus S (params_id req) isVip of
                  (Inr updatedUser, S') \<Rightarrow> (json (Json updatedUser), S')
                | (Inl err, S') \<Rightarrow> (status_json 500 (Message ''Failed to update VIP status''), S'))
           | _ \<Rightarrow> (status_json 400 (Message ''isVip must be a boolean''), S))"

definition stats_handler ::
  "timezone \<Rightarrow> instant \<Rightarrow> 'db SupabaseStorage \<Rightarrow> request
     \<Rightarrow> reply \<times> 'db SupabaseStorage" where
  "stats_handler tz now S req =
     (case getUserStats tz now S of
        (Inr stats, S') \<Rightarrow> (json (Stats stats), S')
      | (Inl err, S') \<Rightarrow> (status_json 500 (Message ''Failed to fetch user statistics''), S'))"

text \<open>\<open>req.query.days ? parseInt(req.query.days) : 30\<close>.\<close>

definition activity_days :: "request \<Rightarrow> int option" where
  "activity_days req =
     (case map_of (query_params req) ''days'' of
        Some s \<Rightarrow> if s \<noteq> [] then parseInt s else Some 30
      | None \<Rightarrow> Some 30)"

definition activity_handler ::
  "(string \<Rightarrow> instant option) \<Rightarrow> timezone \<Rightarrow> instant \<Rightarrow> 'db SupabaseStorage \<Rightarrow> request
     \<Rightarrow> reply \<times> 'db SupabaseStorage" where
  "activity_handler Date_parse tz now S req =
     (case getUserActivityTrend Date_parse tz now S (activity_days req) of
        (Inr activityData, S') \<Rightarrow> (json (Activity activityData), S')
      | (Inl err, S') \<Rightarrow>
          (status_json 500 (Message ''Failed to fetch user activity data''), S'))"

definition get_settings_handler ::
  "'db SupabaseStorage \<Rightarrow> request \<Rightarrow> reply \<times> 'db SupabaseStorage" where
  "get_settings_handler S req =
     (case getSettings S of (s, S') \<Rightarrow> (json (Json (Obj s)), S'))"

text \<open>The body is spread into the settings as it is; a JSON body that is not an object
  is an array, whose own properties are its indices.\<close>

fun show_nat :: "nat \<Rightarrow> string" where
  "show_nat n =
     (if n < 10 then [char_of (48 + n)] else show_nat (n div 10) @ [char_of (48 + n mod 10)])"

definition own_properties :: "jsval \<Rightarrow> obj" where
  "own_properties v =
     (case v of
        Obj ob \<Rightarrow> ob
      | Arr xs \<Rightarrow> map (\<lambda>(i, x). (show_nat i, x)) (enumerate 0 xs)
      | Str s \<Rightarrow> map (\<lambda>(i, c). (show_nat i, Str [c])) (enumerate 0 s)
      | _ \<Rightarrow> [])"

definition put_settings_handler ::
  "'db SupabaseStorage \<Rightarrow> request \<Rightarrow> reply \<times> 'db SupabaseStorage" where
  "put_settings_handler S req =
     (case updateSettings S (own_properties (body req)) of
        (updatedSettings, S') \<Rightarrow> (json (Json (Obj updatedSettings)), S'))"

text \<open>\<open>registerRoutes\<close>: the routes and the handler of each. The runtime (its
  \<open>Date.parse\<close>, its time zone and its clock) is the same for all.\<close>

datatype route =
    GET_users
  | GET_users_id
  | PUT_users_id
  | POST_users_id_ban
  | POST_users_id_unban
  | POST_users_id_vip
  | GET_analytics_stats
  | GET_analytics_activity
  | GET_settings
  | PUT_settings

fun registerRoutes ::
  "(string \<Rightarrow> instant option) \<Rightarrow> timezone \<Rightarrow> instant \<Rightarrow> route \<Rightarrow> 'db SupabaseStorage \<Rightarrow> request
     \<Rightarrow> reply \<times> 'db SupabaseStorage" where
  "registerRoutes Date_parse tz now GET_users = get_users_handler"
| "registerRoutes Date_parse tz now GET_users_id = get_user_handler"
| "registerRoutes Date_parse tz now PUT_users_id = put_user_handler Date_parse"
| "registerRoutes Date_parse tz now POST_users_id_ban = ban_handler"
| "registerRoutes Date_parse tz now POST_users_id_unban = unban_handler"
| "registerRoutes Date_parse tz now POST_users_id_vip = vip_handler"
| "registerRoutes Date_parse tz now GET_analytics_stats = stats_handler tz now"
| "registerRoutes Date_parse tz now GET_analytics_activity = activity_handler Date_parse tz now"
| "registerRoutes Date_parse tz now GET_settings = get_settings_handler"
| "registerRoutes Date_parse tz now PUT_settings = put_settings_handler"

section \<open>The pages the client walks\<close>

text \<open>\<open>usePagination\<close> computes the number of pages from the count that a list
  request returned: \<open>Math.max(1, Math.ceil(totalItems / itemsPerPage))\<close>. The quotient
  rounded up is written with the integer division, which rounds down.\<close>

definition totalPages :: "int \<Rightarrow> int \<Rightarrow> int" where
  "totalPages totalItems itemsPerPage = max 1 (- ((- totalItems) div itemsPerPage))"

section \<open>A reference model of the hosted database\<close>

text \<open>
  Modelled from the spec: the hosted database and its client library, which are external
  to the repository. The spec describes what the storage adapter relies on: name and
  phone filters are case-insensitive substring matches, the VIP and ban filters are exact
  equality, rows come in the requested sort order, pagination is by offset and limit with
  the total matching count beside the page, a counting request reports the number of
  matching rows, and fetching a single row that does not exist is reported with the
  no-row code \<open>PGRST116\<close>. A database is a list of named tables, a table a list of rows,
  a row an object. The theorems about the adapter alone hold for every client; this model
  is used where a claim speaks of the rows themselves.
\<close>

type_synonym row = obj
type_synonym database = "(string \<times> row list) list"

definition lower :: "char \<Rightarrow> char" where
  "lower c =
     (let n = of_char c :: nat in if 65 \<le> n \<and> n \<le> 90 then char_of (n + 32) else c)"

text \<open>\<open>LIKE\<close>: \<open>%\<close> stands for any sequence of characters, \<open>_\<close> for any one.\<close>

fun like :: "string \<Rightarrow> string \<Rightarrow> bool" where
  "like [] s = (s = [])"
| "like (p # ps) [] = (p = CHR ''%'' \<and> like ps [])"
| "like (p # ps) (c # cs) =
     (if p = CHR ''%'' then like ps (c # cs) \<or> like (p # ps) cs
      else (p = CHR ''_'' \<or> p = c) \<and> like ps cs)"

fun matches :: "cond \<Rightarrow> row \<Rightarrow> bool" where
  "matches (Ilike col pat) r =
     (case obj_get r col of Str s \<Rightarrow> like (map lower pat) (map lower s) | _ \<Rightarrow> False)"
| "matches (Eq col v) r = (v \<noteq> Null \<and> v \<noteq> Undefined \<and> obj_get r col = v)"
| "matches (Gte col v) r =
     (case (obj_get r col, v) of
        (IsoStr a, IsoStr b) \<Rightarrow> b \<le> a
      | (Num a, Num b) \<Rightarrow> b \<le> a
      | _ \<Rightarrow> False)"

definition matching :: "cond list \<Rightarrow> row list \<Rightarrow> row list" where
  "matching conds rows = filter (\<lambda>r. list_all (\<lambda>c. matches c r) conds) rows"

text \<open>The sort key of a column value: numbers and instants by value, strings in
  lexicographic order, a missing value after every other.\<close>

fun sort_value :: "jsval \<Rightarrow> nat \<times> int \<times> string" where
  "sort_value (Bool b) = (0, if b then 1 else 0, [])"
| "sort_value (Num n) = (0, n, [])"
| "sort_value (IsoStr t) = (0, t, [])"
| "sort_value (Str s) = (0, 0, s)"
| "sort_value v = (1, 0, [])"

definition pg_order :: "(string \<times> bool) option \<Rightarrow> row list \<Rightarrow> row list" where
  "pg_order ord rows =
     (case ord of
        None \<Rightarrow> rows
      | Some (col, ascending) \<Rightarrow>
          (let sorted_rows = sort_key (\<lambda>r. sort_value (obj_get r col)) rows
           in if ascending then sorted_rows else rev sorted_rows))"

text \<open>The rows \<open>lo .. hi\<close>, counted from 0, both ends included.\<close>

definition pg_range :: "(int \<times> int) option \<Rightarrow> row list \<Rightarrow> row list" where
  "pg_range rg rows =
     (case rg of
        None \<Rightarrow> rows
      | Some (lo, hi) \<Rightarrow> take (nat (hi - lo + 1)) (drop (nat lo) rows))"

definition pg_project :: "string \<Rightarrow> row \<Rightarrow> row" where
  "pg_project cols r =
     (if cols = ''*'' then r
      else [(cols, case obj_get r cols of Undefined \<Rightarrow> Null | v \<Rightarrow> v)])"

definition no_row :: response where
  "no_row =
     \<lparr>r_data = Null,
      r_error = Some \<lparr>e_code = ''PGRST116'',
                      e_message = ''JSON object requested, multiple (or no) rows returned''\<rparr>,
      r_count = None\<rparr>"

definition pg_result :: "query \<Rightarrow> row list \<Rightarrow> nat \<Rightarrow> response" where
  "pg_result q out n =
     (let cnt = (if q_count q then Some (int n) else None)
      in if q_single q
         then (case out of
                 [r] \<Rightarrow> \<lparr>r_data = Obj r, r_error = None, r_count = cnt\<rparr>
               | _ \<Rightarrow> no_row)
         else \<lparr>r_data = (if q_head q then Null else Arr (map Obj out)),
               r_error = None, r_count = cnt\<rparr>)"

definition pg_exec :: "database \<Rightarrow> query \<Rightarrow> response \<times> database" where
  "pg_exec db q =
     (case map_of db (q_table q) of
        None \<Rightarrow>
          (\<lparr>r_data = Null,
            r_error = Some \<lparr>e_code = ''42P01'',
                            e_message = ''relation '' @ q_table q @ '' does not exist''\<rparr>,
            r_count = None\<rparr>, db)
      | Some rows \<Rightarrow>
          (case q_verb q of
             Select cols \<Rightarrow>
               (let found = pg_order (q_order q) (matching (q_conds q) rows)
                in (pg_result q (map (pg_project cols) (pg_range (q_range q) found))
                      (length found), db))
           | Update patch \<Rightarrow>
               (let hit = (\<lambda>r. list_all (\<lambda>c. matches c r) (q_conds q));
                    rows' = map (\<lambda>r. if hit r then spread r patch else r) rows;
                    out = map (\<lambda>r. spread r patch) (filter hit rows)
                in (if q_returning q then pg_result q out (length out)
                    else \<lparr>r_data = Null, r_error = None, r_count = None\<rparr>,
                    obj_set db (q_table q) rows'))))"

section \<open>Notions used in the statements\<close>

text \<open>From \<open>S\<close> to \<open>S'\<close> the adapter has sent requests to the table \<open>users2\<close> only.\<close>

definition sends_users2 :: "'db SupabaseStorage \<Rightarrow> 'db SupabaseStorage \<Rightarrow> bool" where
  "sends_users2 S S' \<longleftrightarrow>
     (\<exists>new. issued S' = issued S @ new \<and>
            list_all (\<lambda>q. q_table q = ''users2'' \<and> q_table q \<noteq> ''users'') new)"

text \<open>The users in the \<open>data\<close> of a list result; none when the operation threw.\<close>

definition page_rows :: "js_error + UsersResult \<Rightarrow> jsval list" where
  "page_rows r =
     (case r of Inr res \<Rightarrow> (case data res of Arr xs \<Rightarrow> xs | _ \<Rightarrow> []) | Inl err \<Rightarrow> [])"

text \<open>The rows of a table that match the filters, in the order asked for: what the
  reference database selects for the request of \<open>getUsers\<close>, before it cuts the page.\<close>

definition matching_users :: "FilterUserParams \<Rightarrow> row list \<Rightarrow> row list" where
  "matching_users filters rows =
     pg_order (q_order (getUsers_query filters)) (matching (q_conds (getUsers_query filters)) rows)"

text \<open>Each of the optional fields of an update is absent or of its declared type.\<close>

definition optional_fields_ok :: "obj \<Rightarrow> bool" where
  "optional_fields_ok ob \<longleftrightarrow>
     parsed_type (obj_get ob ''phone'') \<in> {''undefined'', ''string''} \<and>
     parsed_type (obj_get ob ''imei'') \<in> {''undefined'', ''string''} \<and>
     parsed_type (obj_get ob ''is_vip'') \<in> {''undefined'', ''boolean''} \<and>
     parsed_type (obj_get ob ''is_banned'') \<in> {''undefined'', ''boolean''} \<and>
     parsed_type (obj_get ob ''expired_at'') \<in> {''undefined'', ''null'', ''string''}"



text \<open>The zone has the same offset at \<open>now\<close> and at each of the local times that
  \<open>setDate\<close> reaches when it goes back by 0 to \<open>n\<close> days: no change of offset lies
  in between.\<close>

definition same_offset :: "timezone \<Rightarrow> instant \<Rightarrow> int \<Rightarrow> bool" where
  "same_offset tz now n \<longleftrightarrow>
     list_all (\<lambda>i. LocalTZA_local tz (LocalTime tz now - i * MS_PER_DAY) = LocalTZA_utc tz now)
       [0..n]"

text \<open>The zone UTC, and a zone four hours behind UTC until 06:00 UTC of day 20394 and
  five hours behind from then on, with a local time that occurs twice read at the earlier
  offset: daylight saving time ending, as in New York on 2 November 2025.\<close>

definition utc :: timezone where
  "utc = \<lparr>LocalTZA_utc = (\<lambda>t. 0), LocalTZA_local = (\<lambda>t. 0)\<rparr>"


text \<open>What a runtime's \<open>Date.parse\<close> gives on two strings: the first of January 2025,
  and a thirteenth month, which is not a date.\<close>

definition example_Date_parse :: "string \<Rightarrow> instant option" where
  "example_Date_parse s = (if s = ''2025-01-01'' then Some 1735689600000 else None)"

text \<open>A small database and requests, for the examples.\<close>

definition ann :: row where
  "ann = [(''id'', Str ''a''), (''name'', Str ''Ann''), (''phone'', Str ''0901''),
          (''is_vip'', Bool False), (''created_at'', IsoStr 0), (''expired_at'', Null),
          (''is_banned'', Bool False)]"

definition example_storage :: "database SupabaseStorage" where
  "example_storage = new_storage pg_exec [(''users2'', [ann])]"

definition example_filters :: "int \<Rightarrow> int \<Rightarrow> FilterUserParams" where
  "example_filters page limit =
     \<lparr>f_name = None, f_phone = None, f_is_vip = ''all'', f_is_banned = ''all'',
      f_sortBy = ''created_at'', f_sortOrder = ''desc'', f_page = page, f_limit = limit\<rparr>"

definition example_request :: "string \<Rightarrow> jsval \<Rightarrow> request" where
  "example_request ident b = \<lparr>params_id = ident, query_params = [], body = b\<rparr>"



definition example_now :: instant where
  "example_now = 20395 * MS_PER_DAY + 3600000"



section \<open>Objects\<close>

lemma map_of_obj_set: "map_of (obj_set ob k v) = (map_of ob)(k \<mapsto> v)"
  by (induction ob) auto

lemma map_of_spread: "map_of (spread a b) = map_of a ++ map_of (rev b)"
  unfolding spread_def
proof (induction b arbitrary: a)
  case Nil
  then show ?case by simp
next
  case (Cons x b)
  obtain k v where x: "x = (k, v)" by (cases x)
  have "map_of (fold (\<lambda>(k, v) ob. obj_set ob k v) b (obj_set a k v))
          = map_of (obj_set a k v) ++ map_of (rev b)"
    by (rule Cons.IH)
  also have "\<dots> = (map_of a)(k \<mapsto> v) ++ map_of (rev b)"
    by (simp only: map_of_obj_set)
  also have "\<dots> = map_of a ++ ([k \<mapsto> v] ++ map_of (rev b))"
    by (rule ext) (simp add: map_add_def split: option.splits)
  also have "[k \<mapsto> v] ++ map_of (rev b) = map_of (rev ((k, v) # b))"
    by simp
  finally show ?case by (simp add: x)
qed

lemma keys_obj_set_old: "k \<in> fst ` set ob \<Longrightarrow> map fst (obj_set ob k v) = map fst ob"
  by (induction ob) force+

lemma keys_obj_set_new: "k \<notin> fst ` set ob \<Longrightarrow> map fst (obj_set ob k v) = map fst ob @ [k]"
  by (induction ob) auto

lemma distinct_obj_set: "distinct (map fst ob) \<Longrightarrow> distinct (map fst (obj_set ob k v))"
  by (cases "k \<in> fst ` set ob") (simp_all add: keys_obj_set_old keys_obj_set_new)

lemma distinct_spread: "distinct (map fst a) \<Longrightarrow> distinct (map fst (spread a b))"
  unfolding spread_def
  by (induction b arbitrary: a) (auto simp: distinct_obj_set)

lemma map_of_rev_distinct: "distinct (map fst xs) \<Longrightarrow> map_of (rev xs) = map_of xs"
proof (induction xs)
  case Nil
  then show ?case by simp
next
  case (Cons x xs)
  obtain k v where x: "x = (k, v)" by (cases x)
  from Cons.prems have "map_of xs k = None"
    by (simp add: x map_of_eq_None_iff)
  then have "[k \<mapsto> v] ++ map_of xs = (map_of xs)(k \<mapsto> v)"
    by (intro ext) (simp add: map_add_def split: option.splits)
  with Cons show ?case by (simp add: x)
qed

text \<open>Copying an object gives the object.\<close>

lemma spread_Nil_left: "distinct (map fst a) \<Longrightarrow> spread [] a = a"
proof -
  have "distinct (map fst (b @ a)) \<Longrightarrow> spread b a = b @ a" for b
  proof (induction a arbitrary: b)
    case Nil
    then show ?case by (simp add: spread_def)
  next
    case (Cons x a)
    obtain k v where x: "x = (k, v)" by (cases x)
    from Cons.prems have "k \<notin> fst ` set b" by (auto simp: x)
    then have "obj_set b k v = b @ [(k, v)]" by (induction b) auto
    moreover have "spread b (x # a) = spread (obj_set b k v) a"
      by (simp add: spread_def x)
    moreover from Cons.prems have "distinct (map fst ((b @ [(k, v)]) @ a))" by (simp add: x)
    ultimately show ?case using Cons.IH [of "b @ [(k, v)]"] by (simp add: x)
  qed
  from this [of "[]"] show "distinct (map fst a) \<Longrightarrow> spread [] a = a" by simp
qed

lemma obj_get_spread:
  assumes "distinct (map fst a)" "distinct (map fst b)"
  shows "obj_get (spread (spread [] a) b) k =
           (if k \<in> fst ` set b then obj_get b k else obj_get a k)"
proof -
  have "map_of (spread (spread [] a) b) k =
          (case map_of b k of None \<Rightarrow> map_of a k | Some v \<Rightarrow> Some v)"
    using assms by (simp add: map_of_spread map_of_rev_distinct map_add_def)
  moreover have "k \<in> fst ` set b \<longleftrightarrow> map_of b k \<noteq> None"
    by (simp add: map_of_eq_None_iff)
  ultimately show ?thesis
    by (auto simp: obj_get_def split: option.splits)
qed

section \<open>Settings\<close>

text \<open>
  C3. For every settings state and every partial settings object, \<open>updateSettings\<close>
  merges the partial object into the current record and returns the new value: a field
  named in the partial object takes its new value, every other field keeps the value it
  had; the value returned is the one stored, which \<open>getSettings\<close> returns from then on,
  and \<open>getSettings\<close> returns the current value without changing anything. The two
  handlers send what the two operations return. The objects are well formed: each key
  occurs once.
\<close>

theorem updateSettings_merge:
  assumes "distinct (map fst (settings S))" and "distinct (map fst newSettings)"
  shows "fst (updateSettings S newSettings) = settings (snd (updateSettings S newSettings))
     \<and> getSettings (snd (updateSettings S newSettings))
           = (fst (updateSettings S newSettings), snd (updateSettings S newSettings))
     \<and> getSettings S = (settings S, S)
     \<and> (\<forall>k. obj_get (fst (updateSettings S newSettings)) k =
              (if k \<in> fst ` set newSettings then obj_get newSettings k
               else obj_get (settings S) k))
     \<and> distinct (map fst (fst (updateSettings S newSettings)))
     \<and> put_settings_handler S (req\<lparr>body := Obj newSettings\<rparr>)
           = (json (Json (Obj (fst (updateSettings S newSettings)))),
              snd (updateSettings S newSettings))
     \<and> get_settings_handler S req = (json (Json (Obj (settings S))), S)"
  using assms
  by (simp add: updateSettings_def getSettings_def Let_def obj_get_spread distinct_spread
        put_settings_handler_def get_settings_handler_def own_properties_def)

text \<open>The spec's example: from the default settings, updating only \<open>maintenanceMode\<close>
  leaves \<open>appVersion\<close> as it was.\<close>

theorem updateSettings_merge_witness:
  "distinct (map fst (settings (new_storage pg_exec [])))
   \<and> distinct (map fst [(''maintenanceMode'', Bool True)])
   \<and> obj_get (fst (updateSettings (new_storage pg_exec []) [(''maintenanceMode'', Bool True)]))
        ''maintenanceMode'' = Bool True
   \<and> obj_get (fst (updateSettings (new_storage pg_exec []) [(''maintenanceMode'', Bool True)]))
        ''appVersion'' = Str ''1.0.0''"
proof -
  have d: "distinct (map fst (settings (new_storage pg_exec [])))"
    by (simp add: new_storage_def DEFAULT_SETTINGS_def spread_def)
  have e: "distinct (map fst [(''maintenanceMode'', Bool True)])" by simp
  have s: "settings (new_storage pg_exec []) = DEFAULT_SETTINGS"
    by (simp add: new_storage_def DEFAULT_SETTINGS_def spread_def)
  from updateSettings_merge [OF d e]
  have m: "obj_get (fst (updateSettings (new_storage pg_exec [])
                           [(''maintenanceMode'', Bool True)])) k
            = (if k \<in> fst ` set [(''maintenanceMode'', Bool True)]
               then obj_get [(''maintenanceMode'', Bool True)] k
               else obj_get (settings (new_storage pg_exec [])) k)" for k
    by blast
  show ?thesis
    using d e m [of "''maintenanceMode''"] m [of "''appVersion''"]
    by (simp add: s obj_get_def DEFAULT_SETTINGS_def)
qed

section \<open>The client and the requests sent\<close>

lemma await_eq:
  "await S q = (fst (supabase S (remote S) q),
                S\<lparr>remote := snd (supabase S (remote S) q), issued := issued S @ [q]\<rparr>)"
  by (simp add: await_def split: prod.split)

lemma snd_case_result:
  "snd (case x of (Inr a, S') \<Rightarrow> (f a, S') | (Inl e, S') \<Rightarrow> (g e, S')) = snd x"
  by (cases x; cases "fst x") auto

lemma q_table_builders [simp]:
  "q_table (ilike c p q) = q_table q"
  "q_table (eq_q c v q) = q_table q"
  "q_table (gte c v q) = q_table q"
  "q_table (order_q c a q) = q_table q"
  "q_table (range_q lo hi q) = q_table q"
  "q_table (returning q) = q_table q"
  "q_table (single q) = q_table q"
  "q_table (select t cols) = t"
  "q_table (select_count t cols) = t"
  "q_table (select_head t cols) = t"
  "q_table (update t patch) = t"
  by (simp_all add: ilike_def eq_q_def gte_def order_q_def range_q_def returning_def single_def
        select_def select_count_def select_head_def update_def from_table_def)

lemmas example_defs =
  example_storage_def example_request_def ann_def new_storage_def DEFAULT_SETTINGS_def

lemmas pg_defs =
  pg_exec_def pg_result_def pg_order_def pg_range_def pg_project_def matching_def no_row_def
  single_def returning_def eq_q_def gte_def ilike_def order_q_def range_q_def select_def
  select_count_def select_head_def update_def from_table_def obj_get_def spread_def

lemma getUser_eq:
  "fst (getUser S ident) =
     (case r_error (fst (supabase S (remote S)
                      (single (eq_q ''id'' (Str ident) (select ''users2'' ''*''))))) of
        Some e \<Rightarrow> if e_code e = ''PGRST116'' then Inr Null
                  else Inl (Error (''Failed to get user: '' @ e_message e))
      | None \<Rightarrow> Inr (r_data (fst (supabase S (remote S)
                      (single (eq_q ''id'' (Str ident) (select ''users2'' ''*'')))))))"
  by (simp add: getUser_def await_eq split: option.splits)

lemma getUser_issued:
  "issued (snd (getUser S ident)) = issued S @
     [single (eq_q ''id'' (Str ident) (select ''users2'' ''*''))]"
  by (simp add: getUser_def await_eq split: option.splits)

lemma get_user_handler_eq:
  "fst (get_user_handler S req) =
     (case fst (getUser S (params_id req)) of
        Inr user \<Rightarrow> if \<not> truthy user then status_json 404 (Message ''User not found'')
                    else json (Json user)
      | Inl err \<Rightarrow> status_json 500 (Message ''Failed to fetch user''))"
  by (simp add: get_user_handler_def split: prod.splits sum.splits)

lemma updateUser_eq:
  "updateUser S ident user =
     (case expired_at_for_supabase user of
        Inl err \<Rightarrow> (Inl err, S)
      | Inr userData \<Rightarrow>
          (case r_error (fst (supabase S (remote S)
                  (single (returning (eq_q ''id'' (Str ident) (update ''users2'' userData)))))) of
             Some e \<Rightarrow> Inl (Error (''Failed to update user: '' @ e_message e))
           | None \<Rightarrow> Inr (r_data (fst (supabase S (remote S)
                  (single (returning (eq_q ''id'' (Str ident) (update ''users2'' userData))))))),
           S\<lparr>remote := snd (supabase S (remote S)
                  (single (returning (eq_q ''id'' (Str ident) (update ''users2'' userData))))),
             issued := issued S @
                  [single (returning (eq_q ''id'' (Str ident) (update ''users2'' userData)))]\<rparr>))"
  by (simp add: updateUser_def await_eq split: sum.splits option.splits)

lemma updateUser_issued:
  "expired_at_for_supabase user = Inr userData \<Longrightarrow>
   issued (snd (updateUser S ident user)) = issued S @
     [single (returning (eq_q ''id'' (Str ident) (update ''users2'' userData)))]"
  by (simp add: updateUser_eq)

lemma updateUser_unsent:
  "expired_at_for_supabase user = Inl err \<Longrightarrow> updateUser S ident user = (Inl err, S)"
  by (simp add: updateUser_eq)

lemma expired_at_for_supabase_flag:
  "expired_at_for_supabase [(k, Bool b)] = Inr [(k, Bool b)]"
  by (simp add: expired_at_for_supabase_def spread_def obj_get_def)

lemma q_table_getUsers_query: "q_table (getUsers_query filters) = ''users2''"
  by (simp add: getUsers_query_def Let_def split: option.splits)

lemma getUsers_issued: "issued (snd (getUsers S filters)) = issued S @ [getUsers_query filters]"
  by (simp add: getUsers_def await_eq split: option.splits)

lemma getUserStats_eq:
  "fst (getUserStats tz now S) =
     Inr \<lparr>totalUsers = count_or_0 (r_count (answers (supabase S) (remote S) (stats_queries tz now) ! 0)),
          activeUsers = count_or_0 (r_count (answers (supabase S) (remote S) (stats_queries tz now) ! 1)),
          bannedUsers = count_or_0 (r_count (answers (supabase S) (remote S) (stats_queries tz now) ! 2)),
          vipUsers = count_or_0 (r_count (answers (supabase S) (remote S) (stats_queries tz now) ! 3)),
          newUsers = count_or_0 (r_count (answers (supabase S) (remote S) (stats_queries tz now) ! 4))\<rparr>"
  by (simp add: getUserStats_def await_eq stats_queries_def Let_def split: prod.splits)

lemma getUserStats_issued:
  "issued (snd (getUserStats tz now S)) = issued S @ stats_queries tz now"
  by (simp add: getUserStats_def await_eq stats_queries_def Let_def split: prod.splits)

lemma getUserStats_table_eq:
  "fst (getUserStats_table now S t) =
     Inr \<lparr>totalUsers = count_or_0 (r_count (answers (supabase S) (remote S) (stats_queries_table t now) ! 0)),
          activeUsers = count_or_0 (r_count (answers (supabase S) (remote S) (stats_queries_table t now) ! 1)),
          bannedUsers = count_or_0 (r_count (answers (supabase S) (remote S) (stats_queries_table t now) ! 2)),
          vipUsers = count_or_0 (r_count (answers (supabase S) (remote S) (stats_queries_table t now) ! 3)),
          newUsers = count_or_0 (r_count (answers (supabase S) (remote S) (stats_queries_table t now) ! 4))\<rparr>"
  by (simp add: getUserStats_table_def await_eq stats_queries_table_def Let_def split: prod.splits)

lemma getUserStats_table_issued:
  "issued (snd (getUserStats_table now S t)) = issued S @ stats_queries_table t now"
  by (simp add: getUserStats_table_def await_eq stats_queries_table_def Let_def split: prod.splits)

text \<open>Where the offset of the zone does not change, going back by days is going back by
  that many times 24 hours.\<close>

lemma setDate_back_same_offset:
  assumes "same_offset tz now n" and "0 \<le> i" and "i \<le> n"
  shows "setDate_back tz now i = now - i * MS_PER_DAY"
proof -
  from assms have "LocalTZA_local tz (LocalTime tz now - i * MS_PER_DAY) = LocalTZA_utc tz now"
    by (simp add: same_offset_def list_all_iff)
  then show ?thesis by (simp add: setDate_back_def UTC_def LocalTime_def)
qed

lemma same_offset_utc: "same_offset utc now n"
  by (simp add: same_offset_def utc_def list_all_iff)

lemma setDate_back_utc: "setDate_back utc now i = now - i * MS_PER_DAY"
  by (simp add: setDate_back_def UTC_def LocalTime_def utc_def)

lemma stats_queries_table_utc: "stats_queries_table ''users2'' now = stats_queries utc now"
  by (simp add: stats_queries_table_def stats_queries_def setDate_back_utc MS_PER_DAY_def)

lemma getUserActivityTrend_issued:
  "issued (snd (getUserActivityTrend Date_parse tz now S (Some n))) = issued S @
     [gte ''created_at'' (IsoStr (setDate_back tz now n)) (select ''users2'' ''created_at'')]"
  by (simp add: getUserActivityTrend_def await_eq Let_def split: jsval.splits sum.splits)

section \<open>Fetching one user\<close>

lemma matching_id_unique:
  assumes "distinct (map (\<lambda>r. obj_get r ''id'') rows)"
  shows "matching [Eq ''id'' (Str ident)] rows =
           (if Str ident \<in> (\<lambda>r. obj_get r ''id'') ` set rows
            then [the (find (\<lambda>r. obj_get r ''id'' = Str ident) rows)] else [])"
  using assms
proof (induction rows)
  case Nil
  then show ?case by (simp add: matching_def)
next
  case (Cons r rows)
  show ?case
  proof (cases "obj_get r ''id'' = Str ident")
    case True
    with Cons.prems have "Str ident \<notin> (\<lambda>r. obj_get r ''id'') ` set rows" by auto
    with Cons True show ?thesis by (simp add: matching_def)
  next
    case False
    with Cons show ?thesis by (auto simp: matching_def)
  qed
qed

text \<open>
  C7. \<open>getUser\<close> sends one request for the row with the given id. Whatever the client
  is, as long as a request for a single row resolves with an error or with the row:
  \<open>getUser\<close> returns \<open>null\<close> exactly when the answer carries the no-row code
  \<open>PGRST116\<close>, and throws exactly when it carries another error; the handler of
  \<open>GET /api/users/:id\<close> answers 404 exactly in the first case, 500 exactly in the second,
  and sends the row otherwise. On the reference database, where ids are unique, the
  answer is \<open>null\<close>, and the status 404, exactly when no row of \<open>users2\<close> has the id.
\<close>

theorem getUser_not_found:
  fixes S :: "'db SupabaseStorage" and R :: "database SupabaseStorage"
  assumes resp: "resp = fst (supabase S (remote S)
                    (single (eq_q ''id'' (Str (params_id req)) (select ''users2'' ''*''))))"
    and single_contract: "r_error resp = None \<Longrightarrow> truthy (r_data resp)"
    and reference: "supabase R = pg_exec" "map_of (remote R) ''users2'' = Some rows"
      "distinct (map (\<lambda>r. obj_get r ''id'') rows)"
  shows "(fst (getUser S (params_id req)) = Inr Null
            \<longleftrightarrow> (\<exists>e. r_error resp = Some e \<and> e_code e = ''PGRST116''))
     \<and> (isl (fst (getUser S (params_id req)))
            \<longleftrightarrow> (\<exists>e. r_error resp = Some e \<and> e_code e \<noteq> ''PGRST116''))
     \<and> (fst (get_user_handler S req) = status_json 404 (Message ''User not found'')
            \<longleftrightarrow> (\<exists>e. r_error resp = Some e \<and> e_code e = ''PGRST116''))
     \<and> (fst (get_user_handler S req) = status_json 500 (Message ''Failed to fetch user'')
            \<longleftrightarrow> (\<exists>e. r_error resp = Some e \<and> e_code e \<noteq> ''PGRST116''))
     \<and> (fst (get_user_handler S req) = json (Json (r_data resp)) \<longleftrightarrow> r_error resp = None)
     \<and> (fst (getUser R ident) = Inr Null
            \<longleftrightarrow> Str ident \<notin> (\<lambda>r. obj_get r ''id'') ` set rows)
     \<and> (fst (get_user_handler R (req\<lparr>params_id := ident\<rparr>))
            = status_json 404 (Message ''User not found'')
            \<longleftrightarrow> Str ident \<notin> (\<lambda>r. obj_get r ''id'') ` set rows)"
proof -
  have a: "fst (getUser S (params_id req)) = Inr Null
            \<longleftrightarrow> (\<exists>e. r_error resp = Some e \<and> e_code e = ''PGRST116'')"
    using single_contract by (auto simp: getUser_eq resp [symmetric] split: option.splits)
  have b: "isl (fst (getUser S (params_id req)))
            \<longleftrightarrow> (\<exists>e. r_error resp = Some e \<and> e_code e \<noteq> ''PGRST116'')"
    by (auto simp: getUser_eq resp [symmetric] split: option.splits)
  have c: "fst (get_user_handler S req) = status_json 404 (Message ''User not found'')
            \<longleftrightarrow> (\<exists>e. r_error resp = Some e \<and> e_code e = ''PGRST116'')"
    using single_contract
    by (auto simp: get_user_handler_eq getUser_eq resp [symmetric] status_json_def json_def
             split: option.splits)
  have d: "fst (get_user_handler S req) = status_json 500 (Message ''Failed to fetch user'')
            \<longleftrightarrow> (\<exists>e. r_error resp = Some e \<and> e_code e \<noteq> ''PGRST116'')"
    by (auto simp: get_user_handler_eq getUser_eq resp [symmetric] status_json_def json_def
             split: option.splits)
  have e: "fst (get_user_handler S req) = json (Json (r_data resp)) \<longleftrightarrow> r_error resp = None"
    using single_contract
    by (auto simp: get_user_handler_eq getUser_eq resp [symmetric] status_json_def json_def
             split: option.splits)
  have q: "fst (pg_exec (remote R) (single (eq_q ''id'' (Str ident) (select ''users2'' ''*''))))
            = (if Str ident \<in> (\<lambda>r. obj_get r ''id'') ` set rows
               then \<lparr>r_data = Obj (the (find (\<lambda>r. obj_get r ''id'' = Str ident) rows)),
                     r_error = None, r_count = None\<rparr>
               else no_row)"
    using reference(2)
    by (simp add: pg_exec_def single_def eq_q_def select_def from_table_def pg_order_def
          pg_range_def pg_project_def pg_result_def matching_id_unique [OF reference(3)])
  have f: "fst (getUser R ident) = Inr Null
            \<longleftrightarrow> Str ident \<notin> (\<lambda>r. obj_get r ''id'') ` set rows"
    by (simp add: getUser_eq reference(1) q no_row_def)
  have g: "fst (get_user_handler R (req\<lparr>params_id := ident\<rparr>))
            = status_json 404 (Message ''User not found'')
            \<longleftrightarrow> Str ident \<notin> (\<lambda>r. obj_get r ''id'') ` set rows"
    by (simp add: get_user_handler_eq getUser_eq reference(1) q no_row_def status_json_def json_def)
  from a b c d e f g show ?thesis by blast
qed

text \<open>In the example database, which holds the one user \<open>a\<close>: fetching \<open>b\<close> is a 404,
  fetching \<open>a\<close> is not.\<close>

theorem getUser_not_found_witness:
  "supabase example_storage = pg_exec
   \<and> map_of (remote example_storage) ''users2'' = Some [ann]
   \<and> distinct (map (\<lambda>r. obj_get r ''id'') [ann])
   \<and> fst (getUser example_storage ''b'') = Inr Null
   \<and> fst (get_user_handler example_storage (example_request ''b'' Undefined))
       = status_json 404 (Message ''User not found'')
   \<and> fst (getUser example_storage ''a'') \<noteq> Inr Null"
proof -
  let ?req = "example_request ''b'' Undefined"
  let ?resp = "fst (supabase example_storage (remote example_storage)
                 (single (eq_q ''id'' (Str (params_id ?req)) (select ''users2'' ''*''))))"
  have c: "r_error ?resp = None \<Longrightarrow> truthy (r_data ?resp)"
    by (simp add: example_defs pg_defs)
  have r: "supabase example_storage = pg_exec"
    "map_of (remote example_storage) ''users2'' = Some [ann]"
    "distinct (map (\<lambda>r. obj_get r ''id'') [ann])"
    by (simp_all add: example_defs)
  have i: "?req\<lparr>params_id := ''b''\<rparr> = ?req"
    by (simp add: example_request_def)
  have m: "Str ''b'' \<notin> (\<lambda>r. obj_get r ''id'') ` set [ann]"
    "Str ''a'' \<in> (\<lambda>r. obj_get r ''id'') ` set [ann]"
    by (simp_all add: ann_def obj_get_def)
  from getUser_not_found [OF refl c r, of "''b''"]
  have b: "fst (getUser example_storage ''b'') = Inr Null
            \<longleftrightarrow> Str ''b'' \<notin> (\<lambda>r. obj_get r ''id'') ` set [ann]"
    "fst (get_user_handler example_storage (?req\<lparr>params_id := ''b''\<rparr>))
       = status_json 404 (Message ''User not found'')
            \<longleftrightarrow> Str ''b'' \<notin> (\<lambda>r. obj_get r ''id'') ` set [ann]"
    by blast+
  from getUser_not_found [OF refl c r, of "''a''"]
  have a: "fst (getUser example_storage ''a'') = Inr Null
            \<longleftrightarrow> Str ''a'' \<notin> (\<lambda>r. obj_get r ''id'') ` set [ann]"
    by blast
  from a b m r show ?thesis by (simp only: i) blast
qed

section \<open>The VIP toggle\<close>

lemma filter_id_unique:
  assumes "distinct (map (\<lambda>r. obj_get r ''id'') rows)" and "r \<in> set rows"
    and "obj_get r ''id'' = Str ident"
  shows "filter (\<lambda>x. obj_get x ''id'' = Str ident) rows = [r]"
  using assms
proof (induction rows)
  case Nil
  then show ?case by simp
next
  case (Cons x rows)
  show ?case
  proof (cases "x = r")
    case True
    with Cons.prems have "\<forall>y \<in> set rows. obj_get y ''id'' \<noteq> Str ident" by (auto simp: image_iff)
    then have "filter (\<lambda>x. obj_get x ''id'' = Str ident) rows = []" by (simp add: filter_empty_conv)
    with True Cons.prems show ?thesis by simp
  next
    case False
    with Cons.prems have "r \<in> set rows" by simp
    moreover from this Cons.prems have "obj_get x ''id'' \<noteq> Str ident" by (auto simp: image_iff)
    ultimately show ?thesis using Cons by simp
  qed
qed

lemma updateUser_reference:
  assumes ref: "supabase R = pg_exec" "map_of (remote R) ''users2'' = Some rows"
    and ids: "distinct (map (\<lambda>r. obj_get r ''id'') rows)"
    and r: "r \<in> set rows" "obj_get r ''id'' = Str ident"
    and p: "expired_at_for_supabase user = Inr patch"
  shows "updateUser R ident user =
           (Inr (Obj (spread r patch)),
            R\<lparr>remote := obj_set (remote R) ''users2''
                  (map (\<lambda>x. if obj_get x ''id'' = Str ident then spread x patch else x) rows),
              issued := issued R @
                  [single (returning (eq_q ''id'' (Str ident) (update ''users2'' patch)))]\<rparr>)"
proof -
  have "pg_exec (remote R) (single (returning (eq_q ''id'' (Str ident) (update ''users2'' patch))))
          = (\<lparr>r_data = Obj (spread r patch), r_error = None, r_count = None\<rparr>,
             obj_set (remote R) ''users2''
               (map (\<lambda>x. if obj_get x ''id'' = Str ident then spread x patch else x) rows))"
    using ref(2)
    by (simp add: pg_exec_def single_def returning_def eq_q_def update_def from_table_def
          pg_result_def filter_id_unique [OF ids r] Let_def)
  then show ?thesis by (simp add: updateUser_eq p ref(1))
qed

text \<open>
  C6. A request to \<open>POST /api/users/:id/vip\<close> carries a parsed JSON body (a value that
  is neither \<open>null\<close> nor \<open>undefined\<close>). If its \<open>isVip\<close> is not a boolean, the
  handler answers 400 with the message \<open>isVip must be a boolean\<close> and the storage is
  as before: no request was sent and the remote database is unchanged. If it is a
  boolean, the handler calls \<open>setVipStatus\<close> with it, which sends one update of
  \<open>is_vip\<close> for that id, and sends the user that \<open>setVipStatus\<close> returns. On the
  reference database, where ids are unique, and for the id of a row of \<open>users2\<close>, the
  user sent is that row with \<open>is_vip\<close> set, which is also the row stored from then
  on, the other rows being as before.
\<close>

theorem vip_handler_boolean:
  fixes S :: "'db SupabaseStorage" and R :: "database SupabaseStorage"
  assumes "body req \<noteq> Null" and "body req \<noteq> Undefined"
  shows "((\<forall>b. property (body req) ''isVip'' \<noteq> Bool b) \<longrightarrow>
            vip_handler S req = (status_json 400 (Message ''isVip must be a boolean''), S))
     \<and> (property (body req) ''isVip'' = Bool isVip \<longrightarrow>
            vip_handler S req =
              (case setVipStatus S (params_id req) isVip of
                 (Inr updatedUser, S') \<Rightarrow> (json (Json updatedUser), S')
               | (Inl err, S') \<Rightarrow>
                   (status_json 500 (Message ''Failed to update VIP status''), S'))
          \<and> issued (snd (vip_handler S req)) = issued S @
               [single (returning (eq_q ''id'' (Str (params_id req))
                  (update ''users2'' [(''is_vip'', Bool isVip)])))])
     \<and> (property (body req) ''isVip'' = Bool isVip \<and> supabase R = pg_exec
          \<and> map_of (remote R) ''users2'' = Some rows
          \<and> distinct (map (\<lambda>r. obj_get r ''id'') rows)
          \<and> r \<in> set rows \<and> obj_get r ''id'' = Str (params_id req) \<longrightarrow>
            vip_handler R req =
              (json (Json (Obj (spread r [(''is_vip'', Bool isVip)]))),
               R\<lparr>remote := obj_set (remote R) ''users2''
                     (map (\<lambda>x. if obj_get x ''id'' = Str (params_id req)
                                then spread x [(''is_vip'', Bool isVip)] else x) rows),
                 issued := issued R @
                     [single (returning (eq_q ''id'' (Str (params_id req))
                        (update ''users2'' [(''is_vip'', Bool isVip)])))]\<rparr>))"
proof -
  have a: "(\<forall>b. property (body req) ''isVip'' \<noteq> Bool b) \<Longrightarrow>
            vip_handler S req = (status_json 400 (Message ''isVip must be a boolean''), S)"
    using assms by (cases "property (body req) ''isVip''") (auto simp: vip_handler_def)
  have b: "property (body req) ''isVip'' = Bool isVip \<Longrightarrow>
            vip_handler S req =
              (case setVipStatus S (params_id req) isVip of
                 (Inr updatedUser, S') \<Rightarrow> (json (Json updatedUser), S')
               | (Inl err, S') \<Rightarrow>
                   (status_json 500 (Message ''Failed to update VIP status''), S'))" for S :: "'a SupabaseStorage"
    using assms by (simp add: vip_handler_def)
  have c: "issued (snd (case setVipStatus S (params_id req) isVip of
                 (Inr updatedUser, S') \<Rightarrow> (json (Json updatedUser), S')
               | (Inl err, S') \<Rightarrow>
                   (status_json 500 (Message ''Failed to update VIP status''), S')))
            = issued S @ [single (returning (eq_q ''id'' (Str (params_id req))
                  (update ''users2'' [(''is_vip'', Bool isVip)])))]"
    by (simp add: snd_case_result setVipStatus_def
          updateUser_issued [OF expired_at_for_supabase_flag])
  have d: "vip_handler R req =
              (json (Json (Obj (spread r [(''is_vip'', Bool isVip)]))),
               R\<lparr>remote := obj_set (remote R) ''users2''
                     (map (\<lambda>x. if obj_get x ''id'' = Str (params_id req)
                                then spread x [(''is_vip'', Bool isVip)] else x) rows),
                 issued := issued R @
                     [single (returning (eq_q ''id'' (Str (params_id req))
                        (update ''users2'' [(''is_vip'', Bool isVip)])))]\<rparr>)"
    if "property (body req) ''isVip'' = Bool isVip" "supabase R = pg_exec"
      "map_of (remote R) ''users2'' = Some rows" "distinct (map (\<lambda>r. obj_get r ''id'') rows)"
      "r \<in> set rows" "obj_get r ''id'' = Str (params_id req)"
    using that(1)
    by (simp add: b setVipStatus_def
          updateUser_reference [OF that(2-6) expired_at_for_supabase_flag])
  from a b [of S] c d show ?thesis by simp
qed

text \<open>A body whose \<open>isVip\<close> is the string \<open>yes\<close>: 400, and the storage is as it was.
  A body whose \<open>isVip\<close> is \<open>true\<close>, for the user of the example database: the user
  is sent, now a VIP.\<close>

theorem vip_handler_boolean_witness:
  "body (example_request ''a'' (Obj [(''isVip'', Str ''yes'')])) \<noteq> Null
   \<and> body (example_request ''a'' (Obj [(''isVip'', Str ''yes'')])) \<noteq> Undefined
   \<and> vip_handler example_storage (example_request ''a'' (Obj [(''isVip'', Str ''yes'')]))
       = (status_json 400 (Message ''isVip must be a boolean''), example_storage)
   \<and> fst (vip_handler example_storage (example_request ''a'' (Obj [(''isVip'', Bool True)])))
       = json (Json (Obj [(''id'', Str ''a''), (''name'', Str ''Ann''), (''phone'', Str ''0901''),
            (''is_vip'', Bool True), (''created_at'', IsoStr 0), (''expired_at'', Null),
            (''is_banned'', Bool False)]))"
proof -
  let ?req = "example_request ''a'' (Obj [(''isVip'', Str ''yes'')])"
  let ?req2 = "example_request ''a'' (Obj [(''isVip'', Bool True)])"
  have n: "body ?req \<noteq> Null" "body ?req \<noteq> Undefined"
    "body ?req2 \<noteq> Null" "body ?req2 \<noteq> Undefined"
    by (simp_all add: example_request_def)
  have p: "\<forall>b. property (body ?req) ''isVip'' \<noteq> Bool b"
    by (simp add: example_request_def property_def obj_get_def)
  have q: "property (body ?req2) ''isVip'' = Bool True" "supabase example_storage = pg_exec"
    "map_of (remote example_storage) ''users2'' = Some [ann]"
    "distinct (map (\<lambda>r. obj_get r ''id'') [ann])"
    "ann \<in> set [ann]" "obj_get ann ''id'' = Str (params_id ?req2)"
    by (simp_all add: example_defs property_def obj_get_def)
  from vip_handler_boolean [OF n(1,2), where S = example_storage and R = example_storage] p
  have 1: "vip_handler example_storage ?req
            = (status_json 400 (Message ''isVip must be a boolean''), example_storage)"
    by blast
  from vip_handler_boolean [OF n(3,4), where S = example_storage and R = example_storage
         and isVip = True and rows = "[ann]" and r = ann] q
  have "vip_handler example_storage ?req2 =
          (json (Json (Obj (spread ann [(''is_vip'', Bool True)]))),
           example_storage\<lparr>remote := obj_set (remote example_storage) ''users2''
                 (map (\<lambda>x. if obj_get x ''id'' = Str (params_id ?req2)
                            then spread x [(''is_vip'', Bool True)] else x) [ann]),
             issued := issued example_storage @
                 [single (returning (eq_q ''id'' (Str (params_id ?req2))
                    (update ''users2'' [(''is_vip'', Bool True)])))]\<rparr>)"
    by blast
  then have "fst (vip_handler example_storage ?req2)
          = json (Json (Obj (spread ann [(''is_vip'', Bool True)])))"
    by (simp only: fst_conv)
  then have 2: "fst (vip_handler example_storage ?req2)
       = json (Json (Obj [(''id'', Str ''a''), (''name'', Str ''Ann''), (''phone'', Str ''0901''),
            (''is_vip'', Bool True), (''created_at'', IsoStr 0), (''expired_at'', Null),
            (''is_banned'', Bool False)]))"
    by (simp add: ann_def spread_def)
  from 1 2 n show ?thesis by simp
qed

section \<open>The default window of the activity trend\<close>

text \<open>
  C10. When the query string of \<open>GET /api/analytics/activity\<close> has no \<open>days\<close>, the
  handler calls \<open>getUserActivityTrend\<close> with 30: it sends what that call returns, and the
  request sent to the database asks for the rows created since the instant that
  \<open>setDate\<close> reaches 30 days back, which is 30 times 24 hours before now where the
  offset of the zone does not change.
\<close>

theorem activity_default_days:
  assumes "map_of (query_params req) ''days'' = None"
  shows "activity_days req = Some 30
     \<and> activity_handler Date_parse tz now S req =
         (case getUserActivityTrend Date_parse tz now S (Some 30) of
            (Inr activityData, S') \<Rightarrow> (json (Activity activityData), S')
          | (Inl err, S') \<Rightarrow>
              (status_json 500 (Message ''Failed to fetch user activity data''), S'))
     \<and> issued (snd (activity_handler Date_parse tz now S req)) = issued S @
         [gte ''created_at'' (IsoStr (setDate_back tz now 30)) (select ''users2'' ''created_at'')]
     \<and> (same_offset tz now 30 \<longrightarrow> setDate_back tz now 30 = now - 30 * MS_PER_DAY)"
proof -
  have d: "activity_days req = Some 30" using assms by (simp add: activity_days_def)
  have "issued (snd (activity_handler Date_parse tz now S req)) = issued S @
         [gte ''created_at'' (IsoStr (setDate_back tz now 30)) (select ''users2'' ''created_at'')]"
    by (simp add: activity_handler_def d snd_case_result getUserActivityTrend_issued)
  with d setDate_back_same_offset [of tz now 30 30] show ?thesis
    by (simp add: activity_handler_def)
qed

theorem activity_default_days_witness:
  "map_of (query_params (example_request [] Undefined)) ''days'' = None
   \<and> activity_days (example_request [] Undefined) = Some 30
   \<and> same_offset utc example_now 30
   \<and> setDate_back utc example_now 30 = example_now - 30 * MS_PER_DAY"
proof -
  have n: "map_of (query_params (example_request [] Undefined)) ''days'' = None"
    by (simp add: example_request_def)
  from activity_default_days [OF n, where tz = utc and now = example_now]
    n same_offset_utc [of example_now 30]
  show ?thesis by blast
qed

section \<open>Statistics\<close>

text \<open>
  C8. \<open>getUserStats\<close> sends five counting requests to \<open>users2\<close>, each on its own:
  all rows, the rows that are not banned, the banned rows, the VIP rows, and the rows
  created at or after the instant that \<open>setDate\<close> reaches seven days back. Each field
  of the result is the count of the answer to its request, and 0 when that answer has no
  count. The handler of \<open>GET /api/analytics/stats\<close> sends the result. The later version
  of the operation, called on \<open>users2\<close>, sends the same five requests, the last with the
  instant seven times 24 hours before now, and reads each count in the same way.
\<close>

theorem getUserStats_counts:
  "fst (getUserStats tz now S) =
     Inr \<lparr>totalUsers = count_or_0 (r_count (answers (supabase S) (remote S) (stats_queries tz now) ! 0)),
          activeUsers = count_or_0 (r_count (answers (supabase S) (remote S) (stats_queries tz now) ! 1)),
          bannedUsers = count_or_0 (r_count (answers (supabase S) (remote S) (stats_queries tz now) ! 2)),
          vipUsers = count_or_0 (r_count (answers (supabase S) (remote S) (stats_queries tz now) ! 3)),
          newUsers = count_or_0 (r_count (answers (supabase S) (remote S) (stats_queries tz now) ! 4))\<rparr>
   \<and> issued (snd (getUserStats tz now S)) = issued S @ stats_queries tz now
   \<and> (let counting = (\<lambda>conds. \<lparr>q_table = ''users2'', q_verb = Select ''*'', q_count = True,
                                 q_head = True, q_conds = conds, q_order = None, q_range = None,
                                 q_returning = False, q_single = False\<rparr>)
      in stats_queries tz now =
           [counting [],
            counting [Eq ''is_banned'' (Bool False)],
            counting [Eq ''is_banned'' (Bool True)],
            counting [Eq ''is_vip'' (Bool True)],
            counting [Gte ''created_at'' (IsoStr (setDate_back tz now 7))]]
         \<and> stats_queries_table ''users2'' now =
           [counting [],
            counting [Eq ''is_banned'' (Bool False)],
            counting [Eq ''is_banned'' (Bool True)],
            counting [Eq ''is_vip'' (Bool True)],
            counting [Gte ''created_at'' (IsoStr (now - 7 * MS_PER_DAY))]])
   \<and> count_or_0 None = 0
   \<and> (\<forall>n. count_or_0 (Some n) = n)
   \<and> fst (getUserStats_table now S ''users2'') =
     Inr \<lparr>totalUsers = count_or_0 (r_count (answers (supabase S) (remote S) (stats_queries_table ''users2'' now) ! 0)),
          activeUsers = count_or_0 (r_count (answers (supabase S) (remote S) (stats_queries_table ''users2'' now) ! 1)),
          bannedUsers = count_or_0 (r_count (answers (supabase S) (remote S) (stats_queries_table ''users2'' now) ! 2)),
          vipUsers = count_or_0 (r_count (answers (supabase S) (remote S) (stats_queries_table ''users2'' now) ! 3)),
          newUsers = count_or_0 (r_count (answers (supabase S) (remote S) (stats_queries_table ''users2'' now) ! 4))\<rparr>
   \<and> issued (snd (getUserStats_table now S ''users2'')) = issued S @ stats_queries_table ''users2'' now
   \<and> getUserStats_table now S ''users2'' = getUserStats utc now S
   \<and> stats_handler tz now S req = (json (Stats (projr (fst (getUserStats tz now S)))),
                                    snd (getUserStats tz now S))"
proof -
  have q: "(let counting = (\<lambda>conds. \<lparr>q_table = ''users2'', q_verb = Select ''*'', q_count = True,
                                 q_head = True, q_conds = conds, q_order = None, q_range = None,
                                 q_returning = False, q_single = False\<rparr>)
      in stats_queries tz now =
           [counting [],
            counting [Eq ''is_banned'' (Bool False)],
            counting [Eq ''is_banned'' (Bool True)],
            counting [Eq ''is_vip'' (Bool True)],
            counting [Gte ''created_at'' (IsoStr (setDate_back tz now 7))]]
         \<and> stats_queries_table ''users2'' now =
           [counting [],
            counting [Eq ''is_banned'' (Bool False)],
            counting [Eq ''is_banned'' (Bool True)],
            counting [Eq ''is_vip'' (Bool True)],
            counting [Gte ''created_at'' (IsoStr (now - 7 * MS_PER_DAY))]])"
    by (simp add: stats_queries_def stats_queries_table_def select_head_def select_def
          from_table_def eq_q_def gte_def MS_PER_DAY_def)
  have c: "count_or_0 None = 0" "\<forall>n. count_or_0 (Some n) = n"
    by (simp_all add: count_or_0_def or_default_def)
  have h: "stats_handler tz now S req = (json (Stats (projr (fst (getUserStats tz now S)))),
                                    snd (getUserStats tz now S))"
    by (cases "getUserStats tz now S")
       (use getUserStats_eq [of tz now S] in \<open>auto simp: stats_handler_def\<close>)
  have v: "getUserStats_table now S ''users2'' = getUserStats utc now S"
    by (simp add: getUserStats_table_def getUserStats_def stats_queries_table_utc)
  from q c h v getUserStats_eq [of tz now S] getUserStats_issued [of tz now S]
    getUserStats_table_eq [of now S "''users2''"] getUserStats_table_issued [of now S "''users2''"]
  show ?thesis by blast
qed

section \<open>The table addressed\<close>

lemma sends_users2_refl: "issued S' = issued S \<Longrightarrow> sends_users2 S S'"
  by (simp add: sends_users2_def)

lemma sends_users2_one:
  "issued S' = issued S @ [q] \<Longrightarrow> q_table q = ''users2'' \<Longrightarrow> sends_users2 S S'"
  by (simp add: sends_users2_def)

lemma updateUser_sends: "sends_users2 S (snd (updateUser S ident user))"
proof (cases "expired_at_for_supabase user")
  case (Inl err)
  then show ?thesis by (simp add: updateUser_unsent sends_users2_refl)
next
  case (Inr userData)
  then show ?thesis by (rule sends_users2_one [OF updateUser_issued]) simp
qed

lemma getUserActivityTrend_sends:
  "sends_users2 S (snd (getUserActivityTrend Date_parse tz now S days))"
proof (cases days)
  case None
  then show ?thesis by (simp add: getUserActivityTrend_def sends_users2_refl)
next
  case (Some n)
  show ?thesis unfolding Some by (rule sends_users2_one [OF getUserActivityTrend_issued]) simp
qed

lemma getUserStats_sends: "sends_users2 S (snd (getUserStats tz now S))"
  unfolding sends_users2_def
  by (rule exI [of _ "stats_queries tz now"]) (simp add: getUserStats_issued stats_queries_def)

text \<open>
  C9. Whatever the route and the request (its query string and body included), the
  requests that the handler sends to the database all address the table \<open>users2\<close>, so
  none addresses the legacy table \<open>users\<close>: the operations name the table themselves
  and the handlers pass no table on.
\<close>

theorem handlers_address_users2:
  "\<exists>new. issued (snd (registerRoutes Date_parse tz now rt S req)) = issued S @ new \<and>
          list_all (\<lambda>q. q_table q = ''users2'' \<and> q_table q \<noteq> ''users'') new"
proof -
  have "sends_users2 S (snd (registerRoutes Date_parse tz now rt S req))"
  proof (cases rt)
    case GET_users
    show ?thesis
    proof (cases "filterUserSchema_parse
                \<lparr>in_name = map_of (query_params req) ''name'',
                 in_phone = map_of (query_params req) ''phone'',
                 in_is_vip = map_of (query_params req) ''is_vip'',
                 in_is_banned = map_of (query_params req) ''is_banned'',
                 in_sortBy = map_of (query_params req) ''sortBy'',
                 in_sortOrder = map_of (query_params req) ''sortOrder'',
                 in_page = query_number (query_params req) ''page'',
                 in_limit = query_number (query_params req) ''limit''\<rparr>")
      case (Inl err)
      then show ?thesis
        by (simp add: GET_users get_users_handler_def Let_def sends_users2_refl)
    next
      case (Inr parsedQuery)
      then have "snd (get_users_handler S req) = snd (getUsers S parsedQuery)"
        by (simp add: get_users_handler_def Let_def snd_case_result)
      then show ?thesis
        by (simp add: GET_users sends_users2_one [OF getUsers_issued] q_table_getUsers_query)
    qed
  next
    case GET_users_id
    have "snd (get_user_handler S req) = snd (getUser S (params_id req))"
      by (simp add: get_user_handler_def split: prod.splits sum.splits)
    then show ?thesis by (simp add: GET_users_id sends_users2_one [OF getUser_issued])
  next
    case PUT_users_id
    show ?thesis
    proof (cases "updateUserSchema_parse Date_parse (body req)")
      case (Inl err)
      then show ?thesis by (simp add: PUT_users_id put_user_handler_def sends_users2_refl)
    next
      case (Inr userData)
      then show ?thesis
        by (simp add: PUT_users_id put_user_handler_def snd_case_result updateUser_sends)
    qed
  next
    case POST_users_id_ban
    then show ?thesis by (simp add: ban_handler_def banUser_def snd_case_result updateUser_sends)
  next
    case POST_users_id_unban
    then show ?thesis
      by (simp add: unban_handler_def unbanUser_def snd_case_result updateUser_sends)
  next
    case POST_users_id_vip
    then show ?thesis
      by (cases "property (body req) ''isVip''")
         (simp_all add: vip_handler_def setVipStatus_def snd_case_result updateUser_sends
            sends_users2_refl)
  next
    case GET_analytics_stats
    then show ?thesis by (simp add: stats_handler_def snd_case_result getUserStats_sends)
  next
    case GET_analytics_activity
    then show ?thesis
      by (simp add: activity_handler_def snd_case_result getUserActivityTrend_sends)
  next
    case GET_settings
    then show ?thesis
      by (simp add: get_settings_handler_def getSettings_def sends_users2_refl)
  next
    case PUT_settings
    then show ?thesis
      by (simp add: put_settings_handler_def updateSettings_def Let_def sends_users2_refl)
  qed
  then show ?thesis by (simp add: sends_users2_def)
qed

section \<open>Updating a user\<close>

lemma z_issues:
  "z_string path v = [] \<longleftrightarrow> parsed_type v = ''string''"
  "z_string_optional path v = [] \<longleftrightarrow> parsed_type v \<in> {''undefined'', ''string''}"
  "z_boolean_optional path v = [] \<longleftrightarrow> parsed_type v \<in> {''undefined'', ''boolean''}"
  "z_string_nullable_optional path v = [] \<longleftrightarrow> parsed_type v \<in> {''undefined'', ''null'', ''string''}"
  by (cases v; simp add: z_string_def z_string_optional_def z_boolean_optional_def
        z_string_nullable_optional_def expected_def)+

lemma updateUserSchema_issues_Nil:
  "updateUserSchema_issues ob = [] \<longleftrightarrow>
     parsed_type (obj_get ob ''name'') = ''string'' \<and> optional_fields_ok ob"
  unfolding updateUserSchema_issues_def optional_fields_ok_def
  by (simp only: append_is_Nil_conv z_issues)

lemma updateUserSchema_issues_name:
  "parsed_type (obj_get ob ''name'') \<noteq> ''string'' \<Longrightarrow>
   \<exists>msg rest. updateUserSchema_issues ob = (''name'', msg) # rest"
  by (simp add: updateUserSchema_issues_def z_string_def expected_def)

lemma expired_at_transform_defined: "expired_at_transform Date_parse v \<noteq> Undefined"
  by (simp add: expired_at_transform_def)

lemma distinct_updateUserSchema_output:
  "distinct (map fst (updateUserSchema_output Date_parse ob))"
  unfolding updateUserSchema_output_def by (rule distinct_map_filter) simp

lemma obj_get_updateUserSchema_output:
  "obj_get (updateUserSchema_output Date_parse ob) ''expired_at''
     = expired_at_transform Date_parse (obj_get ob ''expired_at'')"
  by (simp add: updateUserSchema_output_def obj_get_def expired_at_transform_defined)

lemma obj_get_obj_set: "obj_get (obj_set ob k v) k = v"
  by (simp add: obj_get_def map_of_obj_set)

lemma expired_at_for_supabase_Null:
  assumes "distinct (map fst user)" and "obj_get user ''expired_at'' = Null"
  shows "expired_at_for_supabase user = Inr user"
  using assms by (simp add: expired_at_for_supabase_def spread_Nil_left)

lemma expired_at_for_supabase_Date:
  assumes "distinct (map fst user)" and "obj_get user ''expired_at'' = DateObj (Some t)"
  shows "expired_at_for_supabase user = Inr (obj_set user ''expired_at'' (IsoStr t))"
  using assms by (simp add: expired_at_for_supabase_def spread_Nil_left toISOString_def)

lemma put_user_handler_valid:
  assumes "body req = Obj ob" and "updateUserSchema_issues ob = []"
  shows "put_user_handler Date_parse S req =
           (case updateUser S (params_id req) (updateUserSchema_output Date_parse ob) of
              (Inr updatedUser, S') \<Rightarrow> (json (Json updatedUser), S')
            | (Inl err, S') \<Rightarrow> (catch_zod ''Failed to update user'' err, S'))"
  using assms by (simp add: put_user_handler_def updateUserSchema_parse_def)

text \<open>
  C5, as the code has it. The body of \<open>PUT /api/users/:id\<close> must have a \<open>name\<close>
  that is a string: a body whose \<open>name\<close> is missing or of another type is answered 400,
  with a validation message whose first issue names \<open>name\<close>, and nothing is sent to the
  database. A body with a string \<open>name\<close> and any subset of \<open>phone\<close>, \<open>imei\<close>,
  \<open>is_vip\<close>, \<open>is_banned\<close> and \<open>expired_at\<close>, each of its declared type, passes
  validation; \<open>updateUser\<close> is called with the parsed fields and the user it returns is
  sent.
\<close>

theorem put_user_requires_name:
  assumes "body req = Obj ob"
  shows "(parsed_type (obj_get ob ''name'') \<noteq> ''string'' \<longrightarrow>
            put_user_handler Date_parse S req =
              (status_json 400 (Message (fromZodError (updateUserSchema_issues ob))), S)
            \<and> (\<exists>msg rest. updateUserSchema_issues ob = (''name'', msg) # rest))
     \<and> (parsed_type (obj_get ob ''name'') = ''string'' \<and> optional_fields_ok ob \<longrightarrow>
            updateUserSchema_parse Date_parse (body req)
              = Inr (updateUserSchema_output Date_parse ob)
            \<and> put_user_handler Date_parse S req =
                (case updateUser S (params_id req) (updateUserSchema_output Date_parse ob) of
                   (Inr updatedUser, S') \<Rightarrow> (json (Json updatedUser), S')
                 | (Inl err, S') \<Rightarrow> (catch_zod ''Failed to update user'' err, S')))"
proof -
  have a: "parsed_type (obj_get ob ''name'') \<noteq> ''string'' \<Longrightarrow>
            put_user_handler Date_parse S req =
              (status_json 400 (Message (fromZodError (updateUserSchema_issues ob))), S)"
    using assms updateUserSchema_issues_Nil [of ob]
    by (simp add: put_user_handler_def updateUserSchema_parse_def catch_zod_def)
  have b: "parsed_type (obj_get ob ''name'') = ''string'' \<and> optional_fields_ok ob \<Longrightarrow>
            updateUserSchema_parse Date_parse (body req)
              = Inr (updateUserSchema_output Date_parse ob)"
    using assms updateUserSchema_issues_Nil [of ob] by (simp add: updateUserSchema_parse_def)
  from a b updateUserSchema_issues_name [of ob]
    put_user_handler_valid [OF assms, of Date_parse S] updateUserSchema_issues_Nil [of ob]
  show ?thesis by simp
qed

text \<open>C5 as stated fails: a body with \<open>is_vip\<close> alone is a partial set of user fields,
  and it is rejected as a validation failure.\<close>

theorem put_user_partial_body_counterexample:
  "fst (put_user_handler (\<lambda>s. None) example_storage
          (example_request ''a'' (Obj [(''is_vip'', Bool True)])))
     = status_json 400 (Message (fromZodError [(''name'', ''Required'')]))
   \<and> issued (snd (put_user_handler (\<lambda>s. None) example_storage
          (example_request ''a'' (Obj [(''is_vip'', Bool True)])))) = []"
  by (simp add: put_user_handler_def updateUserSchema_parse_def updateUserSchema_issues_def
        z_string_def z_string_optional_def z_boolean_optional_def z_string_nullable_optional_def
        expected_def catch_zod_def example_defs obj_get_def)

theorem put_user_requires_name_witness:
  "body (example_request ''a'' (Obj [(''name'', Str ''Ann B''), (''is_vip'', Bool True)]))
     = Obj [(''name'', Str ''Ann B''), (''is_vip'', Bool True)]
   \<and> parsed_type (obj_get [(''name'', Str ''Ann B''), (''is_vip'', Bool True)] ''name'') = ''string''
   \<and> optional_fields_ok [(''name'', Str ''Ann B''), (''is_vip'', Bool True)]
   \<and> updateUserSchema_parse (\<lambda>s. None)
        (body (example_request ''a'' (Obj [(''name'', Str ''Ann B''), (''is_vip'', Bool True)])))
       = Inr [(''name'', Str ''Ann B''), (''is_vip'', Bool True), (''expired_at'', Null)]"
proof -
  let ?ob = "[(''name'', Str ''Ann B''), (''is_vip'', Bool True)]"
  have b: "body (example_request ''a'' (Obj ?ob)) = Obj ?ob"
    by (simp add: example_request_def)
  have n: "parsed_type (obj_get ?ob ''name'') = ''string''" "optional_fields_ok ?ob"
    by (simp_all add: optional_fields_ok_def obj_get_def)
  have o: "updateUserSchema_output (\<lambda>s. None) ?ob
            = [(''name'', Str ''Ann B''), (''is_vip'', Bool True), (''expired_at'', Null)]"
    by (simp add: updateUserSchema_output_def obj_get_def expired_at_transform_def)
  from put_user_requires_name [OF b, where Date_parse = "\<lambda>s. None" and S = example_storage]
    b n o
  show ?thesis by simp
qed


lemma put_user_patch:
  assumes "body req = Obj ob" and "updateUserSchema_issues ob = []"
    and "expired_at_for_supabase (updateUserSchema_output Date_parse ob) = Inr patch"
  shows "issued (snd (put_user_handler Date_parse S req)) = issued S @
           [single (returning (eq_q ''id'' (Str (params_id req)) (update ''users2'' patch)))]"
    and "fst (put_user_handler Date_parse S req) =
           (case r_error (fst (supabase S (remote S)
                   (single (returning (eq_q ''id'' (Str (params_id req))
                      (update ''users2'' patch)))))) of
              None \<Rightarrow> json (Json (r_data (fst (supabase S (remote S)
                   (single (returning (eq_q ''id'' (Str (params_id req))
                      (update ''users2'' patch))))))))
            | Some e \<Rightarrow> status_json 500 (Message ''Failed to update user''))"
  using assms(3)
  by (simp_all add: put_user_handler_valid [OF assms(1,2)] updateUser_eq catch_zod_def
        split: option.splits)

lemma obj_get_spread_right:
  assumes "distinct (map fst b)" and "obj_get b k \<noteq> Undefined"
  shows "obj_get (spread a b) k = obj_get b k"
  using assms
  by (auto simp: obj_get_def map_of_spread map_of_rev_distinct map_add_def split: option.splits)

lemma put_user_reference:
  assumes "body req = Obj ob" and "updateUserSchema_issues ob = []"
    and "expired_at_for_supabase (updateUserSchema_output Date_parse ob) = Inr patch"
    and "supabase R = pg_exec" and "map_of (remote R) ''users2'' = Some rows"
    and "distinct (map (\<lambda>r. obj_get r ''id'') rows)"
    and "r \<in> set rows" and "obj_get r ''id'' = Str (params_id req)"
  shows "fst (put_user_handler Date_parse R req) = json (Json (Obj (spread r patch)))"
    and "map_of (remote (snd (put_user_handler Date_parse R req))) ''users2'' =
           Some (map (\<lambda>x. if obj_get x ''id'' = Str (params_id req) then spread x patch else x)
                   rows)"
  by (simp_all add: put_user_handler_valid [OF assms(1,2)]
        updateUser_reference [OF assms(4-8) assms(3)] map_of_obj_set)

text \<open>
  C4, as the code has it. For every update request that passes validation: when
  \<open>expired_at\<close> in the body is the empty string, \<open>null\<close> or absent, the update sent
  to the database sets \<open>expired_at\<close> to \<open>null\<close>; when it is a string that the runtime
  reads as the instant \<open>t\<close>, the update sets it to the ISO string of \<open>t\<close>. For
  these values the normalisation does not throw: the update is sent, and the reply is
  the updated row unless the database itself reports an error. On the reference
  database, where ids are unique, and for the id of a row of \<open>users2\<close>, the row sent
  back and stored has that \<open>expired_at\<close>.
\<close>

theorem expired_at_normalized:
  fixes S :: "'db SupabaseStorage" and R :: "database SupabaseStorage"
  assumes "body req = Obj ob"
    and "parsed_type (obj_get ob ''name'') = ''string''" and "optional_fields_ok ob"
    and "obj_get ob ''expired_at'' = Str [] \<or> obj_get ob ''expired_at'' = Null
         \<or> obj_get ob ''expired_at'' = Undefined
         \<or> parsed_type (obj_get ob ''expired_at'') = ''string''
            \<and> new_Date Date_parse (obj_get ob ''expired_at'') = Some t"
  shows "\<exists>patch.
           expired_at_for_supabase (updateUserSchema_output Date_parse ob) = Inr patch
         \<and> obj_get patch ''expired_at'' =
             (if obj_get ob ''expired_at'' \<in> {Str [], Null, Undefined} then Null else IsoStr t)
         \<and> issued (snd (put_user_handler Date_parse S req)) = issued S @
             [single (returning (eq_q ''id'' (Str (params_id req)) (update ''users2'' patch)))]
         \<and> fst (put_user_handler Date_parse S req) =
             (case r_error (fst (supabase S (remote S)
                     (single (returning (eq_q ''id'' (Str (params_id req))
                        (update ''users2'' patch)))))) of
                None \<Rightarrow> json (Json (r_data (fst (supabase S (remote S)
                     (single (returning (eq_q ''id'' (Str (params_id req))
                        (update ''users2'' patch))))))))
              | Some e \<Rightarrow> status_json 500 (Message ''Failed to update user''))
         \<and> (supabase R = pg_exec \<and> map_of (remote R) ''users2'' = Some rows
              \<and> distinct (map (\<lambda>r. obj_get r ''id'') rows)
              \<and> r \<in> set rows \<and> obj_get r ''id'' = Str (params_id req) \<longrightarrow>
                fst (put_user_handler Date_parse R req) = json (Json (Obj (spread r patch)))
              \<and> obj_get (spread r patch) ''expired_at'' =
                  (if obj_get ob ''expired_at'' \<in> {Str [], Null, Undefined} then Null
                   else IsoStr t)
              \<and> map_of (remote (snd (put_user_handler Date_parse R req))) ''users2'' =
                  Some (map (\<lambda>x. if obj_get x ''id'' = Str (params_id req)
                                   then spread x patch else x) rows))"
proof -
  let ?out = "updateUserSchema_output Date_parse ob"
  let ?v = "if obj_get ob ''expired_at'' \<in> {Str [], Null, Undefined} then Null else IsoStr t"
  have v: "updateUserSchema_issues ob = []"
    using assms(2,3) by (simp add: updateUserSchema_issues_Nil)
  have d: "distinct (map fst ?out)" by (rule distinct_updateUserSchema_output)
  have "\<exists>patch. expired_at_for_supabase ?out = Inr patch \<and> distinct (map fst patch)
          \<and> obj_get patch ''expired_at'' = ?v"
  proof (cases "obj_get ob ''expired_at'' \<in> {Str [], Null, Undefined}")
    case True
    then have "obj_get ?out ''expired_at'' = Null"
      by (auto simp: obj_get_updateUserSchema_output expired_at_transform_def)
    then have "expired_at_for_supabase ?out = Inr ?out" and "obj_get ?out ''expired_at'' = Null"
      by (simp_all add: expired_at_for_supabase_Null [OF d])
    with d True show ?thesis by auto
  next
    case False
    with assms(4) have "new_Date Date_parse (obj_get ob ''expired_at'') = Some t" by auto
    with False have "obj_get ?out ''expired_at'' = DateObj (Some t)"
      by (simp add: obj_get_updateUserSchema_output expired_at_transform_def)
    then have "expired_at_for_supabase ?out = Inr (obj_set ?out ''expired_at'' (IsoStr t))"
      by (rule expired_at_for_supabase_Date [OF d])
    with d False show ?thesis by (auto simp: obj_get_obj_set distinct_obj_set)
  qed
  then obtain patch where p: "expired_at_for_supabase ?out = Inr patch"
    and dp: "distinct (map fst patch)" and g: "obj_get patch ''expired_at'' = ?v"
    by blast
  have u: "obj_get patch ''expired_at'' \<noteq> Undefined" by (simp add: g)
  have "obj_get (spread r patch) ''expired_at'' = ?v"
    by (simp only: obj_get_spread_right [OF dp u] g)
  with put_user_patch [OF assms(1) v p, of S] put_user_reference [OF assms(1) v p, of R rows r] p g
  show ?thesis by (intro exI [of _ patch]) simp
qed

theorem expired_at_normalized_witness:
  "(\<lambda>ob. body (example_request ''a'' (Obj ob)) = Obj ob
        \<and> parsed_type (obj_get ob ''name'') = ''string'' \<and> optional_fields_ok ob
        \<and> obj_get ob ''expired_at'' = Str []
        \<and> issued (snd (put_user_handler (\<lambda>s. None) example_storage
                          (example_request ''a'' (Obj ob))))
            = [single (returning (eq_q ''id'' (Str ''a'')
                 (update ''users2'' [(''name'', Str ''Ann''), (''expired_at'', Null)])))])
     [(''name'', Str ''Ann''), (''expired_at'', Str [])]
   \<and> (\<lambda>ob. body (example_request ''a'' (Obj ob)) = Obj ob
        \<and> parsed_type (obj_get ob ''name'') = ''string'' \<and> optional_fields_ok ob
        \<and> parsed_type (obj_get ob ''expired_at'') = ''string''
        \<and> new_Date (\<lambda>s. None) (obj_get ob ''expired_at'') = Some 86400000
        \<and> issued (snd (put_user_handler (\<lambda>s. None) example_storage
                          (example_request ''a'' (Obj ob))))
            = [single (returning (eq_q ''id'' (Str ''a'')
                 (update ''users2'' [(''name'', Str ''Ann''), (''expired_at'', IsoStr 86400000)])))])
     [(''name'', Str ''Ann''), (''expired_at'', IsoStr 86400000)]"
proof -
  let ?ob = "[(''name'', Str ''Ann''), (''expired_at'', Str [])]"
  let ?ob2 = "[(''name'', Str ''Ann''), (''expired_at'', IsoStr 86400000)]"
  have b: "body (example_request ''a'' (Obj ob)) = Obj ob" for ob
    by (simp add: example_request_def)
  have n: "parsed_type (obj_get ?ob ''name'') = ''string''" "optional_fields_ok ?ob"
    "parsed_type (obj_get ?ob2 ''name'') = ''string''" "optional_fields_ok ?ob2"
    by (simp_all add: optional_fields_ok_def obj_get_def)
  have e: "obj_get ?ob ''expired_at'' = Str []" by (simp add: obj_get_def)
  have e2: "parsed_type (obj_get ?ob2 ''expired_at'') = ''string''
            \<and> new_Date (\<lambda>s. None) (obj_get ?ob2 ''expired_at'') = Some 86400000"
    by (simp add: obj_get_def)
  have o: "expired_at_for_supabase (updateUserSchema_output (\<lambda>s. None) ?ob)
            = Inr [(''name'', Str ''Ann''), (''expired_at'', Null)]"
    "expired_at_for_supabase (updateUserSchema_output (\<lambda>s. None) ?ob2)
            = Inr [(''name'', Str ''Ann''), (''expired_at'', IsoStr 86400000)]"
    by (simp_all add: updateUserSchema_output_def obj_get_def expired_at_transform_def
          expired_at_for_supabase_def spread_def toISOString_def)
  have i: "issued example_storage = []" "params_id (example_request ''a'' (Obj ob)) = ''a''" for ob
    by (simp_all add: example_defs)
  from expired_at_normalized [OF b n(1,2) disjI1 [OF e], where Date_parse = "\<lambda>s. None"
         and S = example_storage and R = example_storage and t = 0]
  obtain patch where
    "expired_at_for_supabase (updateUserSchema_output (\<lambda>s. None) ?ob) = Inr patch"
    "issued (snd (put_user_handler (\<lambda>s. None) example_storage (example_request ''a'' (Obj ?ob))))
       = issued example_storage @
           [single (returning (eq_q ''id'' (Str (params_id (example_request ''a'' (Obj ?ob))))
              (update ''users2'' patch)))]"
    by blast
  moreover
  from expired_at_normalized [OF b n(3,4) disjI2 [OF disjI2 [OF disjI2 [OF e2]]],
         where S = example_storage and R = example_storage]
  obtain patch2 where
    "expired_at_for_supabase (updateUserSchema_output (\<lambda>s. None) ?ob2) = Inr patch2"
    "issued (snd (put_user_handler (\<lambda>s. None) example_storage (example_request ''a'' (Obj ?ob2))))
       = issued example_storage @
           [single (returning (eq_q ''id'' (Str (params_id (example_request ''a'' (Obj ?ob2))))
              (update ''users2'' patch2)))]"
    by blast
  ultimately show ?thesis using o i b n e e2 by simp
qed

text \<open>Any other string is outside the statement above: the schema asks only for a
  string, so a non-empty one that the runtime does not read as a date passes validation,
  \<open>toISOString\<close> throws on the invalid date, and the reply is a 500 with nothing sent
  to the database.\<close>

lemma put_user_unreadable_date:
  assumes "body req = Obj ob"
    and "parsed_type (obj_get ob ''name'') = ''string''" and "optional_fields_ok ob"
    and "obj_get ob ''expired_at'' = Str s" and "s \<noteq> []" and "Date_parse s = None"
  shows "put_user_handler Date_parse S req =
           (status_json 500 (Message ''Failed to update user''), S)"
proof -
  let ?out = "updateUserSchema_output Date_parse ob"
  have v: "updateUserSchema_issues ob = []"
    using assms(2,3) by (simp add: updateUserSchema_issues_Nil)
  have "obj_get ?out ''expired_at'' = DateObj None"
    using assms(4,5,6) by (simp add: obj_get_updateUserSchema_output expired_at_transform_def)
  then have "expired_at_for_supabase ?out = Inl (RangeError ''Invalid time value'')"
    by (simp add: expired_at_for_supabase_def spread_Nil_left [OF distinct_updateUserSchema_output]
          toISOString_def)
  then show ?thesis
    by (simp add: put_user_handler_valid [OF assms(1) v] updateUser_unsent catch_zod_def)
qed

text \<open>
  C4 as stated fails: the normalisation can produce an error. The body
  \<open>{"name": "Ann", "expired_at": "2025-13-45"}\<close> has a name and a string for
  \<open>expired_at\<close>, so the schema reports no issue; the string names no date, the
  conversion to an ISO string throws a \<open>RangeError\<close>, the reply is a 500, nothing is
  sent to the database and the stored row keeps what it had.
\<close>

theorem expired_at_unreadable_counterexample:
  "updateUserSchema_issues [(''name'', Str ''Ann''), (''expired_at'', Str ''2025-13-45'')] = []
   \<and> example_Date_parse ''2025-13-45'' = None
   \<and> expired_at_for_supabase (updateUserSchema_output example_Date_parse
          [(''name'', Str ''Ann''), (''expired_at'', Str ''2025-13-45'')])
       = Inl (RangeError ''Invalid time value'')
   \<and> fst (put_user_handler example_Date_parse example_storage
          (example_request ''a'' (Obj [(''name'', Str ''Ann''), (''expired_at'', Str ''2025-13-45'')])))
       = status_json 500 (Message ''Failed to update user'')
   \<and> issued (snd (put_user_handler example_Date_parse example_storage
          (example_request ''a'' (Obj [(''name'', Str ''Ann''), (''expired_at'', Str ''2025-13-45'')]))))
       = []
   \<and> map_of (remote (snd (put_user_handler example_Date_parse example_storage
          (example_request ''a'' (Obj [(''name'', Str ''Ann''), (''expired_at'', Str ''2025-13-45'')])))))
        ''users2''
       = Some [ann]"
  by code_simp

section \<open>Listing users\<close>

lemma concat_pages:
  "0 < L \<Longrightarrow> length M \<le> P * L \<Longrightarrow> concat (map (\<lambda>p. take L (drop (p * L) M)) [0..<P]) = M"
proof (induction P arbitrary: M)
  case 0
  then show ?case by simp
next
  case (Suc P)
  have "[0..<Suc P] = 0 # map Suc [0..<P]"
    by (simp add: upt_conv_Cons map_Suc_upt del: upt_Suc)
  then have "concat (map (\<lambda>p. take L (drop (p * L) M)) [0..<Suc P])
        = take L M @ concat (map (\<lambda>p. take L (drop (p * L) (drop L M))) [0..<P])"
    by (simp add: comp_def add.commute del: upt_Suc)
  also have "concat (map (\<lambda>p. take L (drop (p * L) (drop L M))) [0..<P]) = drop L M"
    using Suc.prems by (intro Suc.IH) auto
  finally show ?case by simp
qed

lemma ceil_div_bounds:
  fixes a b :: int
  assumes "0 \<le> a" "0 < b"
  shows "a \<le> (- ((- a) div b)) * b" and "(- ((- a) div b) - 1) * b < a"
    and "0 \<le> - ((- a) div b)"
proof -
  have e: "((- a) div b) * b = - a - (- a) mod b"
    by (simp add: minus_mod_eq_div_mult)
  have m: "0 \<le> (- a) mod b" "(- a) mod b < b" using assms by simp_all
  have "(- ((- a) div b)) * b = - (((- a) div b) * b)" by simp
  with e have l: "(- ((- a) div b)) * b = a + (- a) mod b" by linarith
  from l m show "a \<le> (- ((- a) div b)) * b" by linarith
  have "(- ((- a) div b) - 1) * b = (- ((- a) div b)) * b - b" by (simp add: algebra_simps)
  with l m show "(- ((- a) div b) - 1) * b < a" by linarith
  have "(- a) div b \<le> 0" using assms by (intro div_nonpos_pos_le0) simp_all
  then show "0 \<le> - ((- a) div b)" by simp
qed


lemmas builder_defs =
  ilike_def eq_q_def gte_def order_q_def range_q_def returning_def single_def
  select_def select_count_def select_head_def update_def from_table_def

lemma getUsers_query_fields:
  "q_verb (getUsers_query f) = Select ''*''"
  "q_count (getUsers_query f) = True"
  "q_head (getUsers_query f) = False"
  "q_single (getUsers_query f) = False"
  "q_range (getUsers_query f) =
     Some ((or_default (f_page f) 1 - 1) * or_default (f_limit f) 10,
           or_default (f_page f) 1 * or_default (f_limit f) 10 - 1)"
  by (simp_all add: getUsers_query_def Let_def builder_defs algebra_simps split: option.splits)

lemma getUsers_query_page:
  "q_conds (getUsers_query (f\<lparr>f_page := p\<rparr>)) = q_conds (getUsers_query f)"
  "q_order (getUsers_query (f\<lparr>f_page := p\<rparr>)) = q_order (getUsers_query f)"
  by (simp_all add: getUsers_query_def Let_def builder_defs split: option.splits)

lemma matching_users_page: "matching_users (f\<lparr>f_page := p\<rparr>) rows = matching_users f rows"
  by (simp add: matching_users_def getUsers_query_page)

lemma getUsers_eq:
  "fst (getUsers S f) =
     (case r_error (fst (supabase S (remote S) (getUsers_query f))) of
        Some e \<Rightarrow> Inl (Error (''Failed to get users: '' @ e_message e))
      | None \<Rightarrow> Inr \<lparr>data = r_data (fst (supabase S (remote S) (getUsers_query f))),
                      count = count_or_0 (r_count (fst (supabase S (remote S) (getUsers_query f))))\<rparr>)"
  by (simp add: getUsers_def await_eq split: option.splits)

lemma count_or_0_simps: "count_or_0 None = 0" "count_or_0 (Some n) = n"
  by (simp_all add: count_or_0_def or_default_def)

lemma getUsers_reference:
  assumes "supabase R = pg_exec" and "map_of (remote R) ''users2'' = Some rows"
  shows "fst (getUsers R f) =
           Inr \<lparr>data = Arr (map Obj (pg_range (q_range (getUsers_query f)) (matching_users f rows))),
                count = int (length (matching_users f rows))\<rparr>"
  using assms(2)
  by (simp add: getUsers_eq assms(1) pg_exec_def q_table_getUsers_query getUsers_query_fields
        pg_result_def pg_project_def matching_users_def count_or_0_simps Let_def)

lemma getUsers_reference_page:
  assumes "supabase R = pg_exec" and "map_of (remote R) ''users2'' = Some rows"
    and "1 \<le> f_page f" and "1 \<le> f_limit f"
  shows "fst (getUsers R f) =
           Inr \<lparr>data = Arr (map Obj (take (nat (f_limit f))
                               (drop (nat ((f_page f - 1) * f_limit f)) (matching_users f rows)))),
                count = int (length (matching_users f rows))\<rparr>"
  using assms(3,4)
  by (simp add: getUsers_reference [OF assms(1,2)] getUsers_query_fields or_default_def
        pg_range_def algebra_simps)

lemma pages_cover:
  assumes "supabase R = pg_exec" and "map_of (remote R) ''users2'' = Some rows"
    and "1 \<le> f_limit f"
  shows "concat (map (\<lambda>p. page_rows (fst (getUsers R (f\<lparr>f_page := int p\<rparr>))))
           [1..<Suc (nat (totalPages (int (length (matching_users f rows))) (f_limit f)))])
         = map Obj (matching_users f rows)"
proof -
  let ?M = "matching_users f rows"
  let ?L = "nat (f_limit f)"
  let ?P = "nat (totalPages (int (length ?M)) (f_limit f))"
  have L: "0 < ?L" using assms(3) by simp
  have c: "int (length ?M) \<le> (- ((- int (length ?M)) div f_limit f)) * f_limit f"
    using assms(3) by (intro ceil_div_bounds) simp_all
  have "int (length ?M) \<le> totalPages (int (length ?M)) (f_limit f) * f_limit f"
  proof -
    have "(- ((- int (length ?M)) div f_limit f)) * f_limit f
            \<le> totalPages (int (length ?M)) (f_limit f) * f_limit f"
      using assms(3) by (intro mult_right_mono) (simp_all add: totalPages_def)
    with c show ?thesis by linarith
  qed
  moreover have "0 \<le> totalPages (int (length ?M)) (f_limit f)" by (simp add: totalPages_def)
  ultimately have "int (length ?M) \<le> int (?P * ?L)" using assms(3) by simp
  then have P: "length ?M \<le> ?P * ?L" by linarith
  have page: "page_rows (fst (getUsers R (f\<lparr>f_page := int (Suc p)\<rparr>)))
                = map Obj (take ?L (drop (p * ?L) ?M))" for p
  proof -
    have "nat ((int (Suc p) - 1) * f_limit f) = p * ?L"
      using assms(3) by (simp add: nat_mult_distrib)
    then show ?thesis
      using getUsers_reference_page [OF assms(1,2), of "f\<lparr>f_page := int (Suc p)\<rparr>"] assms(3)
      by (simp add: page_rows_def matching_users_page)
  qed
  have u: "[1..<Suc ?P] = map Suc [0..<?P]"
    by (simp add: map_Suc_upt del: upt_Suc)
  have "concat (map (\<lambda>p. page_rows (fst (getUsers R (f\<lparr>f_page := int p\<rparr>)))) [1..<Suc ?P])
        = concat (map (\<lambda>p. page_rows (fst (getUsers R (f\<lparr>f_page := int (Suc p)\<rparr>)))) [0..<?P])"
    by (simp only: u map_map comp_def)
  also have "\<dots> = concat (map (\<lambda>p. map Obj (take ?L (drop (p * ?L) ?M))) [0..<?P])"
    by (simp only: page)
  also have "\<dots> = map Obj (concat (map (\<lambda>p. take ?L (drop (p * ?L) ?M)) [0..<?P]))"
    by (simp add: map_concat comp_def)
  also have "\<dots> = map Obj ?M" by (simp add: concat_pages [OF L P])
  finally show ?thesis .
qed


lemma length_page_rows_reference:
  assumes "supabase R = pg_exec" and "map_of (remote R) ''users2'' = Some rows"
    and "1 \<le> f_page f" and "1 \<le> f_limit f"
  shows "length (page_rows (fst (getUsers R f))) \<le> nat (f_limit f)"
  by (simp add: getUsers_reference_page [OF assms] page_rows_def)

lemma filterUserSchema_defaults:
  assumes "in_page input = None" "in_limit input = None" "filterUserSchema_parse input = Inr f"
  shows "f_page f = 1 \<and> f_limit f = 10"
  using assms
  by (auto simp: filterUserSchema_parse_def z_number_default_def Let_def
           split: prod.splits if_splits)

text \<open>
  C2, as the code has it. For every filter object with \<open>page \<ge> 1\<close> and
  \<open>limit \<ge> 1\<close> (the defaults 1 and 10 when the query string has neither),
  \<open>getUsers\<close> sends one request, for the rows \<open>(page-1)*limit .. page*limit-1\<close>, and
  returns the data of the answer with its count, 0 when the answer has no count. On the
  reference database the data are at most \<open>limit\<close> users; for a page that starts at or
  before the end of the matching rows they are the rows of that range among the matching
  rows in the requested order, and the count is the number of matching rows; and the
  pages 1 to \<open>totalPages\<close>, which the client derives from that count, one after the
  other, are exactly the matching rows, each once. What the database answers to a page
  that starts beyond the last matching row is left open.
\<close>

theorem getUsers_pagination:
  fixes S :: "'db SupabaseStorage" and R :: "database SupabaseStorage"
  assumes "1 \<le> f_page f" and "1 \<le> f_limit f"
    and "supabase R = pg_exec" and "map_of (remote R) ''users2'' = Some rows"
  shows "issued (snd (getUsers S f)) = issued S @ [getUsers_query f]
     \<and> q_range (getUsers_query f) = Some ((f_page f - 1) * f_limit f, f_page f * f_limit f - 1)
     \<and> fst (getUsers S f) =
         (case r_error (fst (supabase S (remote S) (getUsers_query f))) of
            Some e \<Rightarrow> Inl (Error (''Failed to get users: '' @ e_message e))
          | None \<Rightarrow>
              Inr \<lparr>data = r_data (fst (supabase S (remote S) (getUsers_query f))),
                   count = (case r_count (fst (supabase S (remote S) (getUsers_query f))) of
                              None \<Rightarrow> 0 | Some n \<Rightarrow> n)\<rparr>)
     \<and> (\<forall>input f'. in_page input = None \<and> in_limit input = None
            \<and> filterUserSchema_parse input = Inr f' \<longrightarrow> f_page f' = 1 \<and> f_limit f' = 10)
     \<and> length (page_rows (fst (getUsers R f))) \<le> nat (f_limit f)
     \<and> ((f_page f - 1) * f_limit f \<le> int (length (matching_users f rows)) \<longrightarrow>
          fst (getUsers R f) =
            Inr \<lparr>data = Arr (map Obj (take (nat (f_limit f))
                     (drop (nat ((f_page f - 1) * f_limit f)) (matching_users f rows)))),
                 count = int (length (matching_users f rows))\<rparr>)
     \<and> concat (map (\<lambda>p. page_rows (fst (getUsers R (f\<lparr>f_page := int p\<rparr>))))
           [1..<Suc (nat (totalPages (int (length (matching_users f rows))) (f_limit f)))])
         = map Obj (matching_users f rows)"
proof -
  have r: "q_range (getUsers_query f) = Some ((f_page f - 1) * f_limit f, f_page f * f_limit f - 1)"
    using assms(1,2) by (simp add: getUsers_query_fields or_default_def)
  have g: "fst (getUsers S f) =
         (case r_error (fst (supabase S (remote S) (getUsers_query f))) of
            Some e \<Rightarrow> Inl (Error (''Failed to get users: '' @ e_message e))
          | None \<Rightarrow>
              Inr \<lparr>data = r_data (fst (supabase S (remote S) (getUsers_query f))),
                   count = (case r_count (fst (supabase S (remote S) (getUsers_query f))) of
                              None \<Rightarrow> 0 | Some n \<Rightarrow> n)\<rparr>)"
    by (simp add: getUsers_eq count_or_0_def or_default_def split: option.splits)
  from r g getUsers_issued [of S f] filterUserSchema_defaults
    length_page_rows_reference [OF assms(3,4,1,2)]
    getUsers_reference_page [OF assms(3,4,1,2)] pages_cover [OF assms(3,4,2)]
  show ?thesis by blast
qed

text \<open>C2 as stated fails for the filter object with \<open>limit = 0\<close>: the schema
  admits it (the request \<open>GET /api/users?limit=0\<close> passes validation),
  \<open>filters.limit || 10\<close> replaces it by 10, the rows 0 to 9 are requested and not the
  empty range of the formula, and the page holds a user, more than the limit asked for.\<close>

theorem getUsers_limit_zero_counterexample:
  "filterUserSchema_parse
      \<lparr>in_name = None, in_phone = None, in_is_vip = None, in_is_banned = None,
       in_sortBy = None, in_sortOrder = None, in_page = None, in_limit = Some (parseInt ''0'')\<rparr>
     = Inr (example_filters 1 0)
   \<and> q_range (getUsers_query (example_filters 1 0)) = Some (0, 9)
   \<and> q_range (getUsers_query (example_filters 1 0)) \<noteq> Some ((1 - 1) * 0, 1 * 0 - 1)
   \<and> fst (getUsers example_storage (example_filters 1 0)) = Inr \<lparr>data = Arr [Obj ann], count = 1\<rparr>
   \<and> \<not> length (page_rows (fst (getUsers example_storage (example_filters 1 0))))
         \<le> nat (f_limit (example_filters 1 0))
   \<and> fst (get_users_handler example_storage
            \<lparr>params_id = [], query_params = [(''limit'', ''0'')], body = Undefined\<rparr>)
       = json (Users \<lparr>data = Arr [Obj ann], count = 1\<rparr>)"
proof -
  have s: "supabase example_storage = pg_exec"
    "map_of (remote example_storage) ''users2'' = Some [ann]"
    by (simp_all add: example_defs)
  have z: "parseInt ''0'' = Some 0"
    by (simp add: parseInt_def is_white_space_def digit_value_def)
  have v: "filterUserSchema_parse
      \<lparr>in_name = None, in_phone = None, in_is_vip = None, in_is_banned = None,
       in_sortBy = None, in_sortOrder = None, in_page = None, in_limit = Some (Some 0)\<rparr>
     = Inr (example_filters 1 0)"
    by (simp add: filterUserSchema_parse_def z_enum_default_def z_number_default_def
          example_filters_def)
  have q: "q_range (getUsers_query (example_filters 1 0)) = Some (0, 9)"
    by (simp add: getUsers_query_fields or_default_def example_filters_def)
  have m: "matching_users (example_filters 1 0) [ann] = [ann]"
    by (simp add: matching_users_def getUsers_query_def example_filters_def Let_def builder_defs
          pg_order_def matching_def)
  have g: "fst (getUsers example_storage (example_filters 1 0))
            = Inr \<lparr>data = Arr [Obj ann], count = 1\<rparr>"
    by (simp add: getUsers_reference [OF s] q m pg_range_def)
  have h: "fst (get_users_handler example_storage
            \<lparr>params_id = [], query_params = [(''limit'', ''0'')], body = Undefined\<rparr>)
       = json (Users \<lparr>data = Arr [Obj ann], count = 1\<rparr>)"
    using g
    by (cases "getUsers example_storage (example_filters 1 0)")
       (simp add: get_users_handler_def query_number_def z v)
  from q g h v show ?thesis by (simp add: page_rows_def example_filters_def z)
qed

text \<open>The first page of ten of the example database.\<close>

theorem getUsers_pagination_witness:
  "1 \<le> f_page (example_filters 1 10) \<and> 1 \<le> f_limit (example_filters 1 10)
   \<and> supabase example_storage = pg_exec
   \<and> map_of (remote example_storage) ''users2'' = Some [ann]
   \<and> q_range (getUsers_query (example_filters 1 10)) = Some (0, 9)
   \<and> fst (getUsers example_storage (example_filters 1 10))
       = Inr \<lparr>data = Arr [Obj ann], count = 1\<rparr>"
proof -
  have h: "1 \<le> f_page (example_filters 1 10)" "1 \<le> f_limit (example_filters 1 10)"
    by (simp_all add: example_filters_def)
  have s: "supabase example_storage = pg_exec"
    "map_of (remote example_storage) ''users2'' = Some [ann]"
    by (simp_all add: example_defs)
  have m: "matching_users (example_filters 1 10) [ann] = [ann]"
    by (simp add: matching_users_def getUsers_query_def example_filters_def Let_def builder_defs
          pg_order_def matching_def)
  have v: "f_page (example_filters 1 10) = 1" "f_limit (example_filters 1 10) = 10"
    by (simp_all add: example_filters_def)
  from getUsers_pagination [OF h s, where S = example_storage]
  have "q_range (getUsers_query (example_filters 1 10))
          = Some ((f_page (example_filters 1 10) - 1) * f_limit (example_filters 1 10),
                  f_page (example_filters 1 10) * f_limit (example_filters 1 10) - 1)"
    and "(f_page (example_filters 1 10) - 1) * f_limit (example_filters 1 10)
            \<le> int (length (matching_users (example_filters 1 10) [ann])) \<longrightarrow>
          fst (getUsers example_storage (example_filters 1 10)) =
            Inr \<lparr>data = Arr (map Obj (take (nat (f_limit (example_filters 1 10)))
                     (drop (nat ((f_page (example_filters 1 10) - 1) * f_limit (example_filters 1 10)))
                        (matching_users (example_filters 1 10) [ann])))),
                 count = int (length (matching_users (example_filters 1 10) [ann]))\<rparr>"
    by blast+
  with h s show ?thesis by (simp add: m v)
qed

section \<open>The activity trend\<close>




























end
